theory Spec2Isabelle
  imports Main "HOL-Library.Sublist" "HOL-Library.AList"
begin

section \<open>Python values, exceptions and the outside world\<close>

text \<open>
  The program is a Python tray utility (package \<open>myaws_win\<close>) that drives the AWS
  command-line tool and an SSH client as child processes. Every raise of the source is a
  value here: an exception is its class together with the text \<open>str(exc)\<close>. All classes
  listed are subclasses of Python's \<open>Exception\<close>, so \<open>except Exception\<close> catches each of
  them; asynchronous interrupts (\<open>KeyboardInterrupt\<close>, \<open>SystemExit\<close>) are outside the model.
\<close>

datatype exn_class =
  RuntimeError | TypeError | KeyError | IndexError | AttributeError
  | ValueError | OSError | OverflowError

datatype exn = Exn (exn_cls: exn_class) (exn_str: string)

text \<open>Values as \<open>json.loads\<close> produces them; a float keeps its literal, opaque.\<close>

datatype json =
  JNull | JBool bool | JInt int | JFloat string | JStr string
  | JArr "json list" | JObj "(string \<times> json) list"

text \<open>
  Outcome of \<open>subprocess.run(..., capture_output=True, text=True, check=True)\<close>: the
  completed process with its stdout, a \<open>CalledProcessError\<close> (non-zero exit) carrying
  \<open>exc.stderr\<close>, \<open>exc.stdout\<close> and \<open>str(exc)\<close>, or any other exception raised while
  spawning (for instance an \<open>OSError\<close>).
\<close>

datatype proc_result =
  Completed string
  | CalledProcessError "string option" "string option" string
  | SpawnRaised exn

text \<open>What the program does to the outside, in order.\<close>

datatype effect =
  Subprocess "string list"
  | SshCall "string list"
  | Sleep nat
  | WriteText string string
  | Mkdir string
  | Notify string string
  | UpdateMenu
  | RefreshCall bool

record date =
  year :: nat
  month :: nat
  day :: nat

text \<open>
  The world: the file system (the regular text files by path, the directories that
  exist, and the \<open>OSError\<close> with which \<open>os.stat\<close> fails on a path for a reason other than
  the path being absent), the library functions the source calls (\<open>shutil.which\<close>,
  \<open>Path.expanduser\<close>, which raises \<open>RuntimeError\<close> when the home directory of the user
  named in the path cannot be determined, \<open>Path.home\<close>, \<open>os.getenv\<close>, \<open>json.loads\<close>,
  \<open>json.dumps\<close> (plain and with \<open>indent=2\<close>),
  \<open>str\<close> of a value that is not a string, \<open>time.strftime\<close>), the system date, the
  behaviour of child processes and of the tray icon as functions of everything done so
  far, and the log of effects in the order they happened. \<open>RefreshCall\<close> is a ghost
  event: it records that \<open>TrayApp.refresh\<close> was entered and with which \<open>force\<close>.
\<close>

record world =
  files :: "string \<rightharpoonup> string"
  directories :: "string \<Rightarrow> bool"
  stat_fault :: "string \<Rightarrow> exn option"
  which :: "string \<Rightarrow> string option"
  expanduser :: "string \<Rightarrow> exn + string"
  home :: string
  getenv :: "string \<Rightarrow> string option"
  json_loads :: "string \<Rightarrow> exn + json"
  json_dumps :: "json \<Rightarrow> string"
  json_dumps_indent :: "json \<Rightarrow> string"
  str_other :: "json \<Rightarrow> string"
  strftime_now :: "effect list \<Rightarrow> string \<Rightarrow> string"
  today :: date
  subprocess_run :: "effect list \<Rightarrow> string list \<Rightarrow> proc_result"
  subprocess_call :: "effect list \<Rightarrow> string list \<Rightarrow> exn + int"
  icon_notify :: "effect list \<Rightarrow> string \<Rightarrow> string \<Rightarrow> exn option"
  icon_update_menu :: "effect list \<Rightarrow> exn option"
  trace :: "effect list"

text \<open>
  A computation takes the state and returns the value or the exception raised, with the
  state as it is then. Statements in sequence are \<open>io_bind\<close>; the three block forms of
  the source are \<open>try_except\<close> (\<open>except Exception as e\<close>), \<open>try_except_runtime\<close>
  (\<open>except RuntimeError as e\<close>: other classes pass through) and \<open>try_finally\<close> (the
  \<open>finally\<close> block always runs; an exception it raises replaces the pending outcome).
\<close>

type_synonym ('s, 'a) io = "'s \<Rightarrow> (exn + 'a) \<times> 's"

definition io_return :: "'a \<Rightarrow> ('s, 'a) io" where
  "io_return x = (\<lambda>s. (Inr x, s))"

definition io_raise :: "exn \<Rightarrow> ('s, 'a) io" where
  "io_raise e = (\<lambda>s. (Inl e, s))"

definition io_result :: "exn + 'a \<Rightarrow> ('s, 'a) io" where
  "io_result r = (\<lambda>s. (r, s))"

definition io_bind :: "('s, 'a) io \<Rightarrow> ('a \<Rightarrow> ('s, 'b) io) \<Rightarrow> ('s, 'b) io" where
  "io_bind m f = (\<lambda>s. case m s of (Inl e, s') \<Rightarrow> (Inl e, s') | (Inr x, s') \<Rightarrow> f x s')"

definition try_except :: "('s, 'a) io \<Rightarrow> (exn \<Rightarrow> ('s, 'a) io) \<Rightarrow> ('s, 'a) io" where
  "try_except m h = (\<lambda>s. case m s of (Inl e, s') \<Rightarrow> h e s' | (Inr x, s') \<Rightarrow> (Inr x, s'))"

definition try_except_runtime ::
  "('s, 'a) io \<Rightarrow> (exn \<Rightarrow> ('s, 'a) io) \<Rightarrow> ('s, 'a) io" where
  "try_except_runtime m h =
     try_except m (\<lambda>e. if exn_cls e = RuntimeError then h e else io_raise e)"

definition try_finally :: "('s, 'a) io \<Rightarrow> ('s, unit) io \<Rightarrow> ('s, 'a) io" where
  "try_finally m f =
     (\<lambda>s. case m s of (r, s') \<Rightarrow>
        (case f s' of (Inl e, s'') \<Rightarrow> (Inl e, s'') | (Inr _, s'') \<Rightarrow> (r, s'')))"

definition log_effect :: "effect \<Rightarrow> world \<Rightarrow> world" where
  "log_effect ev w = w\<lparr>trace := trace w @ [ev]\<rparr>"

section \<open>aws\_cli.py: resolving the executables\<close>

text \<open>\<open>sep.join(xs)\<close>.\<close>

fun str_join :: "string \<Rightarrow> string list \<Rightarrow> string" where
  "str_join sep [] = []"
| "str_join sep [x] = x"
| "str_join sep (x # y # ys) = x @ sep @ str_join sep (y # ys)"

text \<open>
  \<open>Path(p).exists()\<close> for a path given to the program: a fault of \<open>os.stat\<close> is raised,
  otherwise the path exists when it is a regular file or a directory.
\<close>

definition Path_exists :: "world \<Rightarrow> string \<Rightarrow> exn + bool" where
  "Path_exists w p =
     (case stat_fault w p of
        Some e \<Rightarrow> Inl e
      | None \<Rightarrow> Inr (files w p \<noteq> None \<or> directories w p))"

text \<open>Truth value of what \<open>shutil.which\<close> returns: \<open>None\<close> and the empty string are false.\<close>

definition truthy :: "string option \<Rightarrow> bool" where
  "truthy v = (case v of None \<Rightarrow> False | Some s \<Rightarrow> s \<noteq> [])"

text \<open>
  The \<open>for candidate in candidates\<close> loop of \<open>_resolve_executable\<close>: empty candidates
  are skipped; a truthy \<open>shutil.which(candidate)\<close> is returned; otherwise the candidate
  is expanded and, when that path exists, returned. An exception of \<open>expanduser\<close> or of
  \<open>exists\<close> leaves the loop and the function. \<open>Inr None\<close> means the loop ran to its end.
\<close>

fun resolve_loop :: "world \<Rightarrow> string list \<Rightarrow> exn + string option" where
  "resolve_loop w [] = Inr None"
| "resolve_loop w (candidate # rest) =
     (if candidate = [] then resolve_loop w rest
      else if truthy (which w candidate) then Inr (which w candidate)
      else (case expanduser w candidate of
              Inl e \<Rightarrow> Inl e
            | Inr candidate_path \<Rightarrow>
                (case Path_exists w candidate_path of
                   Inl e \<Rightarrow> Inl e
                 | Inr present \<Rightarrow>
                     (if present then Inr (Some candidate_path)
                      else resolve_loop w rest))))"

text \<open>\<open>next((value for value in candidates if value), "")\<close>.\<close>

definition primary_candidate :: "string list \<Rightarrow> string" where
  "primary_candidate candidates =
     (case filter (\<lambda>v. v \<noteq> []) candidates of [] \<Rightarrow> [] | v # _ \<Rightarrow> v)"

definition not_found_message :: "string list \<Rightarrow> string \<Rightarrow> string" where
  "not_found_message candidates display_name =
     display_name @ '' executable not found. Checked: ''
       @ str_join '', '' (filter (\<lambda>c. c \<noteq> []) candidates) @ ''. ''
       @ ''Install '' @ display_name
       @ '' and ensure it is in PATH, or set the full path in config (current: ''
       @ [CHR 0x27] @ primary_candidate candidates @ [CHR 0x27] @ '').''"

definition resolve_executable :: "world \<Rightarrow> string list \<Rightarrow> string \<Rightarrow> exn + string" where
  "resolve_executable w candidates display_name =
     (case resolve_loop w candidates of
        Inl e \<Rightarrow> Inl e
      | Inr (Some resolved) \<Rightarrow> Inr resolved
      | Inr None \<Rightarrow> Inl (Exn RuntimeError (not_found_message candidates display_name)))"

definition resolve_aws_executable :: "world \<Rightarrow> string \<Rightarrow> exn + string" where
  "resolve_aws_executable w configured =
     resolve_executable w [configured, ''aws'', ''aws.exe'', ''aws.cmd''] ''AWS CLI''"

definition resolve_ssh_executable :: "world \<Rightarrow> string \<Rightarrow> exn + string" where
  "resolve_ssh_executable w configured =
     resolve_executable w [configured, ''ssh'', ''ssh.exe''] ''OpenSSH client''"

text \<open>
  What examining one candidate comes to, used to state the property. A non-empty
  candidate resolves to \<open>r\<close> when the search path gives \<open>r\<close>, or, failing that, when the
  candidate taken as a literal path (home directory expanded) exists, \<open>r\<close> being that
  path. It is not found when it is empty, or is neither on the search path nor, expanded,
  an existing path. Examining it raises \<open>e\<close> when it is not on the search path and
  expanding it, or testing the expanded path for existence, raises \<open>e\<close>.
\<close>

definition search_path_hit :: "world \<Rightarrow> string \<Rightarrow> bool" where
  "search_path_hit w c = (case which w c of Some p \<Rightarrow> p \<noteq> [] | None \<Rightarrow> False)"

definition resolves_to :: "world \<Rightarrow> string \<Rightarrow> string \<Rightarrow> bool" where
  "resolves_to w c r =
     (c \<noteq> [] \<and>
      (if search_path_hit w c then which w c = Some r
       else expanduser w c = Inr r \<and> Path_exists w r = Inr True))"

definition not_found :: "world \<Rightarrow> string \<Rightarrow> bool" where
  "not_found w c =
     (c = [] \<or>
      (\<not> search_path_hit w c \<and>
       (case expanduser w c of Inl e \<Rightarrow> False | Inr p \<Rightarrow> Path_exists w p = Inr False)))"

definition examining_raises :: "world \<Rightarrow> string \<Rightarrow> exn \<Rightarrow> bool" where
  "examining_raises w c e =
     (c \<noteq> [] \<and> \<not> search_path_hit w c \<and>
      (case expanduser w c of Inl e' \<Rightarrow> e' = e | Inr p \<Rightarrow> Path_exists w p = Inl e))"

section \<open>Strings, indexing and dates of the Python library\<close>

text \<open>
  \<open>str.strip()\<close> removes leading and trailing whitespace (the ASCII whitespace of
  \<open>str.isspace\<close>; a \<open>char\<close> is a byte here).
\<close>

definition py_isspace :: "char \<Rightarrow> bool" where
  "py_isspace c =
     (c \<in> set [CHR 0x09, CHR 0x0A, CHR 0x0B, CHR 0x0C, CHR 0x0D,
                CHR 0x1C, CHR 0x1D, CHR 0x1E, CHR 0x1F, CHR 0x20])"

definition py_strip :: "string \<Rightarrow> string" where
  "py_strip s = rev (dropWhile py_isspace (rev (dropWhile py_isspace s)))"

definition digit :: "nat \<Rightarrow> char" where
  "digit d = ''0123456789'' ! (d mod 10)"

definition zero_pad2 :: "nat \<Rightarrow> string" where
  "zero_pad2 n = [digit (n div 10), digit n]"

definition zero_pad4 :: "nat \<Rightarrow> string" where
  "zero_pad4 n = [digit (n div 1000), digit (n div 100), digit (n div 10), digit n]"

text \<open>\<open>str(v)\<close> as an f-string formats it: a string is itself.\<close>

definition py_str :: "world \<Rightarrow> json \<Rightarrow> string" where
  "py_str w v = (case v of JStr s \<Rightarrow> s | _ \<Rightarrow> str_other w v)"

text \<open>
  \<open>v[0]\<close> and \<open>v["key"]\<close> on a value of any type: a list or string indexed out of
  range raises \<open>IndexError\<close>, a dict without the key \<open>KeyError\<close>, anything else
  \<open>TypeError\<close>. The message of an exception raised by the interpreter is abbreviated.
\<close>

fun getitem_0 :: "json \<Rightarrow> exn + json" where
  "getitem_0 (JArr xs) =
     (case xs of [] \<Rightarrow> Inl (Exn IndexError ''list index out of range'') | x # _ \<Rightarrow> Inr x)"
| "getitem_0 (JStr s) =
     (case s of [] \<Rightarrow> Inl (Exn IndexError ''string index out of range'')
      | c # _ \<Rightarrow> Inr (JStr [c]))"
| "getitem_0 (JObj kv) = Inl (Exn KeyError ''0'')"
| "getitem_0 v = Inl (Exn TypeError ''object is not subscriptable'')"

fun getitem_key :: "json \<Rightarrow> string \<Rightarrow> exn + json" where
  "getitem_key (JObj kv) k =
     (case map_of kv k of
        None \<Rightarrow> Inl (Exn KeyError ([CHR 0x27] @ k @ [CHR 0x27]))
      | Some v \<Rightarrow> Inr v)"
| "getitem_key (JArr xs) k = Inl (Exn TypeError ''list indices must be integers or slices, not str'')"
| "getitem_key (JStr s) k = Inl (Exn TypeError ''string indices must be integers, not str'')"
| "getitem_key v k = Inl (Exn TypeError ''object is not subscriptable'')"

text \<open>\<open>v.get(key, default)\<close>: only a dict has the method.\<close>

fun dict_get :: "json \<Rightarrow> string \<Rightarrow> json \<Rightarrow> exn + json" where
  "dict_get (JObj kv) k dflt = (case map_of kv k of None \<Rightarrow> Inr dflt | Some v \<Rightarrow> Inr v)"
| "dict_get v k dflt = Inl (Exn AttributeError ''object has no attribute get'')"

text \<open>
  \<open>datetime.date\<close>: the proleptic Gregorian calendar, years 1 to 9999. \<open>replace(day=n)\<close>
  raises \<open>ValueError\<close> on a day the month does not have; subtracting a day from
  0001-01-01 raises \<open>OverflowError\<close>. \<open>strftime\<close> writes the year on four digits.
\<close>

definition is_leap :: "nat \<Rightarrow> bool" where
  "is_leap y = (y mod 4 = 0 \<and> (y mod 100 \<noteq> 0 \<or> y mod 400 = 0))"

definition days_in_month :: "nat \<Rightarrow> nat \<Rightarrow> nat" where
  "days_in_month y m =
     (if m = 2 then (if is_leap y then 29 else 28)
      else if m = 4 \<or> m = 6 \<or> m = 9 \<or> m = 11 then 30 else 31)"

definition valid_date :: "date \<Rightarrow> bool" where
  "valid_date d =
     (1 \<le> year d \<and> year d \<le> 9999 \<and> 1 \<le> month d \<and> month d \<le> 12
      \<and> 1 \<le> day d \<and> day d \<le> days_in_month (year d) (month d))"

definition replace_day :: "date \<Rightarrow> nat \<Rightarrow> exn + date" where
  "replace_day d n =
     (if 1 \<le> n \<and> n \<le> days_in_month (year d) (month d) then Inr (d\<lparr>day := n\<rparr>)
      else Inl (Exn ValueError ''day is out of range for month''))"

definition minus_one_day :: "date \<Rightarrow> exn + date" where
  "minus_one_day d =
     (if 1 < day d then Inr (d\<lparr>day := day d - 1\<rparr>)
      else if 1 < month d
        then Inr (d\<lparr>month := month d - 1, day := days_in_month (year d) (month d - 1)\<rparr>)
      else if 1 < year d then Inr \<lparr>year = year d - 1, month = 12, day = 31\<rparr>
      else Inl (Exn OverflowError ''date value out of range''))"

definition strftime_Ymd :: "date \<Rightarrow> string" where
  "strftime_Ymd d = zero_pad4 (year d) @ zero_pad2 (month d) @ zero_pad2 (day d)"

definition strftime_Y_m_d :: "date \<Rightarrow> string" where
  "strftime_Y_m_d d =
     zero_pad4 (year d) @ ''-'' @ zero_pad2 (month d) @ ''-'' @ zero_pad2 (day d)"

text \<open>A path below a directory, \<open>dir / name\<close>.\<close>

definition path_join :: "string \<Rightarrow> string \<Rightarrow> string" where
  "path_join dir name = dir @ ''/'' @ name"

section \<open>config.py: the configuration record\<close>

record AppConfig =
  aws_owner_id :: string
  aws_key_name :: string
  aws_security_group_id :: string
  aws_region :: string
  aws_location_name :: string
  aws_operating_system :: string
  aws_profile :: string
  aws_executable :: string
  ssh_executable :: string
  ssh_user :: string
  ssh_known_hosts_file :: string
  state_dir :: string
  preferred_currency :: string
  default_vmtype_update :: string
  default_vmtype_rebuild :: string
  update_command :: string
  rebuild_command :: string
  refresh_interval_seconds :: int
  vm_types :: "(string \<times> (string \<times> string) list) list"

definition DEFAULT_VM_TYPES :: "(string \<times> (string \<times> string) list) list" where
  "DEFAULT_VM_TYPES =
     [(''m5'', [(''.4xlarge'', ''(  16 vcpu, 64Gb vram )''),
               (''.12xlarge'', ''(  48 vcpu, 192Gb vram )''),
               (''.24xlarge'', ''(  96 vcpu, 384Gb vram )'')]),
      (''m6i'', [(''.4xlarge'', ''(  16 vcpu, 64Gb vram )''),
                (''.12xlarge'', ''(  48 vcpu, 192Gb vram )''),
                (''.24xlarge'', ''(  96 vcpu, 384Gb vram )''),
                (''.32xlarge'', ''( 128 vcpu, 512Gb vram )'')]),
      (''m7i'', [(''.4xlarge'', ''(  16 vcpu, 64Gb vram )''),
                (''.12xlarge'', ''(  48 vcpu, 192Gb vram )''),
                (''.24xlarge'', ''(  96 vcpu, 384Gb vram )''),
                (''.48xlarge'', ''( 192 vcpu, 768Gb vram )'')]),
      (''c5'', [(''.4xlarge'', ''(  16 vcpu, 32Gb vram )''),
               (''.9xlarge'', ''(  36 vcpu, 72Gb vram )''),
               (''.18xlarge'', ''(  72 vcpu, 144Gb vram )''),
               (''.24xlarge'', ''(  96 vcpu, 192Gb vram )'')]),
      (''c6i'', [(''.4xlarge'', ''(  16 vcpu, 32Gb vram )''),
                (''.12xlarge'', ''(  48 vcpu, 96Gb vram )''),
                (''.24xlarge'', ''(  96 vcpu, 192Gb vram )''),
                (''.32xlarge'', ''( 128 vcpu, 256Gb vram )'')]),
      (''c7i'', [(''.4xlarge'', ''(  16 vcpu, 32Gb vram )''),
                (''.12xlarge'', ''(  48 vcpu, 96Gb vram )''),
                (''.24xlarge'', ''(  96 vcpu, 192Gb vram )''),
                (''.48xlarge'', ''( 192 vcpu, 384Gb vram )'')]),
      (''u-6tb1'', [(''.112xlarge'', ''( 448 vcpu, 6Tb vram )'')])]"

text \<open>\<open>AppConfig()\<close>: every field at its default.\<close>

definition AppConfig_defaults :: AppConfig where
  "AppConfig_defaults =
     \<lparr>aws_owner_id = ''615416975922'',
      aws_key_name = ''pvdabeel@mac.com'',
      aws_security_group_id = ''sg-bce547d1'',
      aws_region = ''eu-central-1'',
      aws_location_name = ''EU (Frankfurt)'',
      aws_operating_system = ''Linux'',
      aws_profile = [],
      aws_executable = ''aws'',
      ssh_executable = ''ssh'',
      ssh_user = ''root'',
      ssh_known_hosts_file = [],
      state_dir = [],
      preferred_currency = ''EUR'',
      default_vmtype_update = ''m7i.12xlarge'',
      default_vmtype_rebuild = ''m7i.48xlarge'',
      update_command = ''update'',
      rebuild_command = ''fullupdate'',
      refresh_interval_seconds = 900,
      vm_types = DEFAULT_VM_TYPES\<rparr>"

definition resolve_known_hosts :: "world \<Rightarrow> AppConfig \<Rightarrow> exn + string" where
  "resolve_known_hosts w config =
     (if ssh_known_hosts_file config \<noteq> [] then expanduser w (ssh_known_hosts_file config)
      else Inr (path_join (path_join (home w) ''.ssh'') ''amazon-vms''))"

text \<open>
  \<open>mkdir(parents=True, exist_ok=True)\<close> raises when the path is a regular file.
\<close>

definition mkdir :: "string \<Rightarrow> (world, unit) io" where
  "mkdir p =
     (\<lambda>w. if files w p \<noteq> None then (Inl (Exn OSError ''File exists''), w)
          else (Inr (), log_effect (Mkdir p) w))"

definition resolve_state_dir :: "AppConfig \<Rightarrow> (world, string) io" where
  "resolve_state_dir config =
     (\<lambda>w. case (if state_dir config \<noteq> [] then expanduser w (state_dir config)
                else (case getenv w ''APPDATA'' of
                        Some appdata \<Rightarrow>
                          (if appdata \<noteq> [] then Inr (path_join appdata ''MyAWS'')
                           else Inr (path_join (path_join (home w) ''.state'') ''myaws''))
                      | None \<Rightarrow> Inr (path_join (path_join (home w) ''.state'') ''myaws''))) of
            Inl e \<Rightarrow> (Inl e, w)
          | Inr path \<Rightarrow>
              (case mkdir path w of
                 (Inl e, w') \<Rightarrow> (Inl e, w')
               | (Inr u, w') \<Rightarrow> (Inr path, w')))"

subsection \<open>Loading the configuration document\<close>

text \<open>
  At run time a dataclass instance holds whatever values it was given: the loaded
  configuration is the list of its attributes, in field order. \<open>asdict\<close> gives that list
  for a typed record (a tuple of the VM catalogue becomes an array, as in the JSON file).
\<close>

definition config_fields :: "string list" where
  "config_fields =
     [''aws_owner_id'', ''aws_key_name'', ''aws_security_group_id'', ''aws_region'',
      ''aws_location_name'', ''aws_operating_system'', ''aws_profile'', ''aws_executable'',
      ''ssh_executable'', ''ssh_user'', ''ssh_known_hosts_file'', ''state_dir'',
      ''preferred_currency'', ''default_vmtype_update'', ''default_vmtype_rebuild'',
      ''update_command'', ''rebuild_command'', ''refresh_interval_seconds'', ''vm_types'']"

definition vm_types_json :: "(string \<times> (string \<times> string) list) list \<Rightarrow> json" where
  "vm_types_json groups =
     JArr (map (\<lambda>(vm_group, vm_list).
                  JArr [JStr vm_group,
                        JArr (map (\<lambda>(suffix, desc). JArr [JStr suffix, JStr desc]) vm_list)])
               groups)"

definition asdict :: "AppConfig \<Rightarrow> (string \<times> json) list" where
  "asdict c =
     [(''aws_owner_id'', JStr (aws_owner_id c)),
      (''aws_key_name'', JStr (aws_key_name c)),
      (''aws_security_group_id'', JStr (aws_security_group_id c)),
      (''aws_region'', JStr (aws_region c)),
      (''aws_location_name'', JStr (aws_location_name c)),
      (''aws_operating_system'', JStr (aws_operating_system c)),
      (''aws_profile'', JStr (aws_profile c)),
      (''aws_executable'', JStr (aws_executable c)),
      (''ssh_executable'', JStr (ssh_executable c)),
      (''ssh_user'', JStr (ssh_user c)),
      (''ssh_known_hosts_file'', JStr (ssh_known_hosts_file c)),
      (''state_dir'', JStr (state_dir c)),
      (''preferred_currency'', JStr (preferred_currency c)),
      (''default_vmtype_update'', JStr (default_vmtype_update c)),
      (''default_vmtype_rebuild'', JStr (default_vmtype_rebuild c)),
      (''update_command'', JStr (update_command c)),
      (''rebuild_command'', JStr (rebuild_command c)),
      (''refresh_interval_seconds'', JInt (refresh_interval_seconds c)),
      (''vm_types'', vm_types_json (vm_types c))]"

text \<open>
  \<open>_deep_update\<close>: the loop over \<open>override.items()\<close>, the output so far first. A key is
  merged recursively when both sides hold a dict, and overwritten or added otherwise.
\<close>

fun deep_update :: "(string \<times> json) list \<Rightarrow> (string \<times> json) list \<Rightarrow> (string \<times> json) list" where
  "deep_update output [] = output"
| "deep_update output ((key, value) # rest) =
     deep_update
       (case value of
          JObj inner \<Rightarrow>
            (case map_of output key of
               Some (JObj held) \<Rightarrow> AList.update key (JObj (deep_update held inner)) output
             | _ \<Rightarrow> AList.update key value output)
        | _ \<Rightarrow> AList.update key value output)
       rest"

text \<open>
  \<open>AppConfig(**kwargs)\<close>: the generated \<open>__init__\<close> takes the fields as keywords and
  nothing else; a field not given keeps its default. No value is type-checked.
\<close>

definition AppConfig_new :: "(string \<times> json) list \<Rightarrow> exn + (string \<times> json) list" where
  "AppConfig_new kwargs =
     (case filter (\<lambda>k. k \<notin> set config_fields) (map fst kwargs) of
        k # _ \<Rightarrow>
          Inl (Exn TypeError
                 (''AppConfig.__init__() got an unexpected keyword argument ''
                    @ [CHR 0x27] @ k @ [CHR 0x27]))
      | [] \<Rightarrow>
          Inr (map (\<lambda>(field, dflt).
                      (field, (case map_of kwargs field of Some v \<Rightarrow> v | None \<Rightarrow> dflt)))
                   (asdict AppConfig_defaults)))"

text \<open>\<open>source.parent\<close>: the path without its last component.\<close>

definition path_parent :: "string \<Rightarrow> string" where
  "path_parent p =
     (if CHR ''/'' \<in> set p then rev (tl (dropWhile (\<lambda>c. c \<noteq> CHR ''/'') (rev p))) else ''.'')"

definition config_source :: "string option \<Rightarrow> string \<Rightarrow> string" where
  "config_source config_path default_path =
     (case config_path of
        Some p \<Rightarrow> (if p \<noteq> [] then p else default_path)
      | None \<Rightarrow> default_path)"

definition load_config :: "string option \<Rightarrow> (world, (string \<times> json) list) io" where
  "load_config config_path =
     io_bind (resolve_state_dir AppConfig_defaults) (\<lambda>dir.
     (let default_path = path_join dir ''config.json'';
          source = config_source config_path default_path
      in io_bind (\<lambda>w. (Inr (files w source \<noteq> None), w)) (\<lambda>present.
         if \<not> present
         then io_bind (mkdir (path_parent source)) (\<lambda>_.
              io_bind (\<lambda>w. (Inr (),
                             log_effect
                               (WriteText source (json_dumps_indent w (JObj (asdict AppConfig_defaults))))
                               (w\<lparr>files := (files w)(source \<mapsto>
                                    json_dumps_indent w (JObj (asdict AppConfig_defaults)))\<rparr>)))
                (\<lambda>_. io_result (AppConfig_new [])))
         else io_bind (\<lambda>w. (case files w source of
                               None \<Rightarrow> (Inl (Exn OSError ''No such file or directory''), w)
                             | Some content \<Rightarrow> (json_loads w content, w))) (\<lambda>raw.
              (case raw of
                 JObj override \<Rightarrow>
                   io_result (AppConfig_new (deep_update (asdict AppConfig_defaults) override))
               | _ \<Rightarrow> io_raise (Exn AttributeError ''object has no attribute items''))))))"

section \<open>aws\_cli.py: the command runner\<close>

record AwsCli =
  config :: AppConfig
  aws_executable :: string
  ssh_executable :: string

text \<open>\<open>AwsCli.__init__\<close>: both executables are resolved, the AWS CLI first.\<close>

definition AwsCli_init :: "world \<Rightarrow> AppConfig \<Rightarrow> exn + AwsCli" where
  "AwsCli_init w cfg =
     (case resolve_aws_executable w (AppConfig.aws_executable cfg) of
        Inl e \<Rightarrow> Inl e
      | Inr aws \<Rightarrow>
          (case resolve_ssh_executable w (AppConfig.ssh_executable cfg) of
             Inl e \<Rightarrow> Inl e
           | Inr ssh \<Rightarrow>
               Inr \<lparr>config = cfg, aws_executable = aws, ssh_executable = ssh\<rparr>))"

definition base :: "AwsCli \<Rightarrow> string list" where
  "base cli =
     [AwsCli.aws_executable cli]
       @ (if aws_profile (config cli) \<noteq> [] then [''--profile'', aws_profile (config cli)] else [])
       @ (if aws_region (config cli) \<noteq> [] then [''--region'', aws_region (config cli)] else [])"

text \<open>
  An argument vector may hold any value at run time (an instance id is whatever the
  parsed reply had at that place); \<open>subprocess\<close> raises \<open>TypeError\<close> on an argument that
  is not a string, before any process is started.
\<close>

fun arg_strings :: "json list \<Rightarrow> string list option" where
  "arg_strings [] = Some []"
| "arg_strings (JStr s # rest) = map_option ((#) s) (arg_strings rest)"
| "arg_strings (v # rest) = None"

definition or_empty :: "string option \<Rightarrow> string" where
  "or_empty v = (case v of None \<Rightarrow> [] | Some s \<Rightarrow> s)"

text \<open>\<open>_run\<close>, returning \<open>completed.stdout\<close>.\<close>

definition run :: "AwsCli \<Rightarrow> json list \<Rightarrow> (world, string) io" where
  "run cli args =
     (\<lambda>w. case arg_strings (map JStr (base cli) @ args) of
        None \<Rightarrow> (Inl (Exn TypeError ''expected str, bytes or os.PathLike object''), w)
      | Some command \<Rightarrow>
          (case subprocess_run w (trace w) command of
             Completed out \<Rightarrow> (Inr out, log_effect (Subprocess command) w)
           | CalledProcessError err out text \<Rightarrow>
               (let stderr = py_strip (or_empty err);
                    stdout = py_strip (or_empty out);
                    detail = (if stderr \<noteq> [] then stderr
                              else if stdout \<noteq> [] then stdout else text)
                in (Inl (Exn RuntimeError (''AWS CLI call failed: '' @ detail)),
                    log_effect (Subprocess command) w))
           | SpawnRaised e \<Rightarrow> (Inl e, log_effect (Subprocess command) w)))"

definition run_text :: "AwsCli \<Rightarrow> json list \<Rightarrow> (world, string) io" where
  "run_text cli args = io_bind (run cli args) (\<lambda>out. io_return (py_strip out))"

definition run_json :: "AwsCli \<Rightarrow> json list \<Rightarrow> (world, json) io" where
  "run_json cli args =
     io_bind (run_text cli (args @ [JStr ''--output'', JStr ''json'']))
       (\<lambda>output. if output = [] then io_return (JObj [])
                  else (\<lambda>w. (json_loads w output, w)))"

definition run_no_output :: "AwsCli \<Rightarrow> json list \<Rightarrow> (world, unit) io" where
  "run_no_output cli args = io_bind (run cli args) (\<lambda>_. io_return ())"

definition run_ssh :: "AwsCli \<Rightarrow> json \<Rightarrow> string \<Rightarrow> (world, int) io" where
  "run_ssh cli host remote_command =
     (\<lambda>w. case resolve_known_hosts w (config cli) of
            Inl e \<Rightarrow> (Inl e, w)
          | Inr known_hosts \<Rightarrow>
              (let ssh_args =
                     [AwsCli.ssh_executable cli, ''-q'', ''-t'', ''-o'',
                      ''StrictHostKeyChecking=no'', ''-o'',
                      ''UserKnownHostsFile='' @ known_hosts,
                      ssh_user (config cli) @ ''@'' @ py_str w host,
                      ''bash -icl '' @ [CHR 0x27] @ remote_command @ [CHR 0x27]]
               in (subprocess_call w (trace w) ssh_args, log_effect (SshCall ssh_args) w)))"

section \<open>service.py: cost reports and image update\<close>

record MyAwsService =
  config :: AppConfig
  cli :: AwsCli
  state_dir :: string

definition res_bind :: "exn + 'a \<Rightarrow> ('a \<Rightarrow> exn + 'b) \<Rightarrow> exn + 'b" where
  "res_bind r f = (case r of Inl e \<Rightarrow> Inl e | Inr x \<Rightarrow> f x)"

text \<open>
  The cache files live in the state directory, which is the program's own: a path there
  exists when it is one of the regular files, and reading and writing them do not fault.
\<close>

definition path_exists :: "string \<Rightarrow> (world, bool) io" where
  "path_exists p = (\<lambda>w. (Inr (files w p \<noteq> None), w))"

definition read_text :: "string \<Rightarrow> (world, string) io" where
  "read_text p =
     (\<lambda>w. case files w p of
        None \<Rightarrow> (Inl (Exn OSError ''No such file or directory''), w)
      | Some content \<Rightarrow> (Inr content, w))"

definition write_text :: "string \<Rightarrow> string \<Rightarrow> (world, unit) io" where
  "write_text p content =
     (\<lambda>w. (Inr (), log_effect (WriteText p content) (w\<lparr>files := (files w)(p \<mapsto> content)\<rparr>)))"

definition sleep :: "nat \<Rightarrow> (world, unit) io" where
  "sleep n = (\<lambda>w. (Inr (), log_effect (Sleep n) w))"

definition cache_file :: "MyAwsService \<Rightarrow> string \<Rightarrow> date \<Rightarrow> string" where
  "cache_file svc prefix' d =
     path_join (MyAwsService.state_dir svc) (prefix' @ ''-'' @ strftime_Ymd d @ ''.json'')"

definition cost_query_args :: "date \<Rightarrow> date \<Rightarrow> string \<Rightarrow> json list" where
  "cost_query_args month_start d granularity =
     [JStr ''ce'', JStr ''get-cost-and-usage'', JStr ''--time-period'',
      JStr (''Start='' @ strftime_Y_m_d month_start @ '',End='' @ strftime_Y_m_d d),
      JStr ''--granularity'', JStr granularity,
      JStr ''--metrics'', JStr ''BlendedCost'',
      JStr ''--group-by'', JStr ''Type=DIMENSION,Key=SERVICE'']"

text \<open>
  \<open>_get_cost_payload\<close>. The \<open>try\<close> block holds the remote query alone; its handler
  either returns the empty report at once (\<open>None\<close> below) or re-raises. Only after the
  block is the reply written to the cache file and returned.
\<close>

definition get_cost_payload :: "MyAwsService \<Rightarrow> string \<Rightarrow> (world, json) io" where
  "get_cost_payload svc granularity =
     io_bind (\<lambda>w. (Inr (today w), w)) (\<lambda>tday.
     io_bind (io_result (replace_day tday 1)) (\<lambda>month_start.
     io_bind (if tday = month_start
              then io_result (res_bind (minus_one_day month_start) (\<lambda>d. replace_day d 1))
              else io_return month_start) (\<lambda>month_start.
     (let prefix' = (if granularity = ''MONTHLY'' then ''myaws-costs-monthly''
                    else ''myaws-costs-daily'');
          file_path = cache_file svc prefix' tday
      in io_bind (path_exists file_path) (\<lambda>present.
         if present
         then io_bind (read_text file_path) (\<lambda>content. (\<lambda>w. (json_loads w content, w)))
         else
           io_bind
             (try_except_runtime
                (io_bind (run_json (cli svc) (cost_query_args month_start tday granularity))
                   (\<lambda>payload. io_return (Some payload)))
                (\<lambda>exc. let message = exn_str exc
                        in if sublist ''DataUnavailableException'' message
                              \<or> sublist ''GetCostAndUsage'' message
                           then io_return None
                           else io_raise exc))
             (\<lambda>r. case r of
                None \<Rightarrow> io_return (JObj [(''ResultsByTime'', JArr [])])
              | Some payload \<Rightarrow>
                  io_bind (\<lambda>w. write_text file_path (json_dumps w payload) w)
                    (\<lambda>_. io_return payload)))))))"

definition run_instance :: "MyAwsService \<Rightarrow> json \<Rightarrow> json \<Rightarrow> (world, json) io" where
  "run_instance svc image_id instance_type =
     io_bind
       (run_json (cli svc)
          [JStr ''ec2'', JStr ''run-instances'', JStr ''--image-id'', image_id,
           JStr ''--instance-type'', instance_type, JStr ''--ebs-optimized'',
           JStr ''--key-name'', JStr (aws_key_name (config svc)),
           JStr ''--security-group-ids'', JStr (aws_security_group_id (config svc))])
       (\<lambda>result. io_result
          (res_bind (getitem_key result ''Instances'') (\<lambda>a.
           res_bind (getitem_0 a) (\<lambda>b. getitem_key b ''InstanceId''))))"

definition terminate_instance :: "MyAwsService \<Rightarrow> json \<Rightarrow> (world, unit) io" where
  "terminate_instance svc instance_id =
     run_no_output (cli svc)
       [JStr ''ec2'', JStr ''terminate-instances'', JStr ''--instance-ids'', instance_id]"

definition create_image :: "MyAwsService \<Rightarrow> json \<Rightarrow> (world, json) io" where
  "create_image svc instance_id =
     io_bind (\<lambda>w. (Inr (''Linux-'' @ strftime_now w (trace w) ''%Y%m%d-%Hh%M''), w)) (\<lambda>name.
     io_bind
       (run_json (cli svc)
          [JStr ''ec2'', JStr ''create-image'', JStr ''--instance-id'', instance_id,
           JStr ''--name'', JStr name])
       (\<lambda>response. io_result (dict_get response ''ImageId'' (JStr []))))"

definition destroy_image :: "MyAwsService \<Rightarrow> json \<Rightarrow> json \<Rightarrow> bool \<Rightarrow> (world, unit) io" where
  "destroy_image svc image_id snapshot_id dry_run =
     (let args_1 = [JStr ''ec2'', JStr ''deregister-image'', JStr ''--image-id'', image_id]
                     @ (if dry_run then [JStr ''--dry-run''] else []);
          args_2 = [JStr ''ec2'', JStr ''delete-snapshot'', JStr ''--snapshot-id'', snapshot_id]
                     @ (if dry_run then [JStr ''--dry-run''] else [])
      in io_bind (run_no_output (cli svc) args_1) (\<lambda>_. run_no_output (cli svc) args_2))"

text \<open>
  \<open>update_image\<close>. The worker is launched before the \<open>try\<close>; every later step is inside
  it. The handler is \<open>except Exception: self.terminate_instance(instance_id); raise\<close>:
  the bare \<open>raise\<close> is reached only when the terminate call returns.
\<close>

definition update_steps :: "MyAwsService \<Rightarrow> json \<Rightarrow> json \<Rightarrow> string \<Rightarrow> json \<Rightarrow> (world, json) io" where
  "update_steps svc ami_to_update ami_snapshot_id remote_cmd instance_id =
     io_bind (run_no_output (cli svc)
                [JStr ''ec2'', JStr ''wait'', JStr ''instance-running'',
                 JStr ''--instance-ids'', instance_id]) (\<lambda>_.
     io_bind (run_json (cli svc)
                [JStr ''ec2'', JStr ''describe-instances'', JStr ''--instance-ids'', instance_id,
                 JStr ''--query'',
                 JStr ''Reservations[*].Instances[*].{PublicDnsName:PublicDnsName}'']) (\<lambda>data.
     io_bind (io_result
                (res_bind (getitem_0 data) (\<lambda>a.
                 res_bind (getitem_0 a) (\<lambda>b. getitem_key b ''PublicDnsName'')))) (\<lambda>dns_name.
     io_bind (sleep 60) (\<lambda>_.
     io_bind (run_ssh (cli svc) dns_name remote_cmd) (\<lambda>outcome.
     io_bind (if outcome \<noteq> 0
              then io_raise (Exn RuntimeError ''Remote update command failed'')
              else io_return ()) (\<lambda>_.
     io_bind (create_image svc instance_id) (\<lambda>new_image.
     io_bind (run_no_output (cli svc)
                [JStr ''ec2'', JStr ''wait'', JStr ''image-available'',
                 JStr ''--image-ids'', new_image]) (\<lambda>_.
     io_bind (terminate_instance svc instance_id) (\<lambda>_.
     io_bind (destroy_image svc ami_to_update ami_snapshot_id False) (\<lambda>_.
     io_return new_image))))))))))"

definition update_image :: "MyAwsService \<Rightarrow> json \<Rightarrow> json \<Rightarrow> bool \<Rightarrow> (world, json) io" where
  "update_image svc ami_to_update ami_snapshot_id rebuild =
     (let vm_type = (if rebuild then default_vmtype_rebuild (config svc)
                     else default_vmtype_update (config svc));
          remote_cmd = (if rebuild then rebuild_command (config svc)
                        else update_command (config svc))
      in io_bind (run_instance svc ami_to_update (JStr vm_type)) (\<lambda>instance_id.
         try_except
           (update_steps svc ami_to_update ami_snapshot_id remote_cmd instance_id)
           (\<lambda>exc. io_bind (terminate_instance svc instance_id) (\<lambda>_. io_raise exc))))"

section \<open>tray\_app.py: refresh and dispatched actions\<close>

text \<open>
  The fields of \<open>TrayApp\<close> that \<open>refresh\<close> and \<open>_run_async\<close> read and write: the held
  snapshot, the last error, and the refresh lock (\<open>True\<close> while held). \<open>outside\<close> is the
  world the service and the tray icon act on. \<open>refresh_calls\<close> is a ghost field: every
  entry to \<open>refresh\<close> appends its \<open>force\<close> argument, so that calls can be counted.

  \<open>MyAwsService.get_snapshot\<close> sums floating-point amounts; \<open>refresh\<close> is modelled for an
  arbitrary snapshot builder \<open>get_snapshot\<close>, a computation on the world that returns a
  snapshot or raises.
\<close>

record 'snap TrayApp =
  state :: "'snap option"
  last_error :: string
  refresh_lock :: bool
  refresh_calls :: "bool list"
  outside :: world

definition in_world :: "(world, 'a) io \<Rightarrow> ('snap TrayApp, 'a) io" where
  "in_world m = (\<lambda>a. case m (outside a) of (r, w') \<Rightarrow> (r, a\<lparr>outside := w'\<rparr>))"

definition assign_state :: "'snap \<Rightarrow> ('snap TrayApp, unit) io" where
  "assign_state snap = (\<lambda>a. (Inr (), a\<lparr>state := Some snap\<rparr>))"

definition assign_last_error :: "string \<Rightarrow> ('snap TrayApp, unit) io" where
  "assign_last_error message = (\<lambda>a. (Inr (), a\<lparr>last_error := message\<rparr>))"

definition release_lock :: "('snap TrayApp, unit) io" where
  "release_lock = (\<lambda>a. (Inr (), a\<lparr>refresh_lock := False\<rparr>))"

text \<open>\<open>self.icon.notify(message, title)\<close> and \<open>self.icon.update_menu()\<close>.\<close>

definition icon_notify_call :: "string \<Rightarrow> string \<Rightarrow> ('snap TrayApp, unit) io" where
  "icon_notify_call message title =
     (\<lambda>a. ((case icon_notify (outside a) (trace (outside a)) message title of
               None \<Rightarrow> Inr () | Some e \<Rightarrow> Inl e),
            a\<lparr>outside := log_effect (Notify message title) (outside a)\<rparr>))"

definition update_menu :: "('snap TrayApp, unit) io" where
  "update_menu =
     (\<lambda>a. ((case icon_update_menu (outside a) (trace (outside a)) of
               None \<Rightarrow> Inr () | Some e \<Rightarrow> Inl e),
            a\<lparr>outside := log_effect UpdateMenu (outside a)\<rparr>))"

text \<open>\<open>_notify\<close>: an exception of the icon is swallowed.\<close>

definition notify :: "string \<Rightarrow> string \<Rightarrow> ('snap TrayApp, unit) io" where
  "notify title message = try_except (icon_notify_call message title) (\<lambda>exc. io_return ())"

text \<open>
  \<open>refresh\<close>, run without interruption. A lock that is already held makes it return at
  once, before the \<open>try\<close>, so its \<open>finally\<close> block does not run either.
\<close>

definition refresh :: "(world, 'snap) io \<Rightarrow> bool \<Rightarrow> ('snap TrayApp, unit) io" where
  "refresh get_snapshot force =
     (\<lambda>a0. let a = a0\<lparr>refresh_calls := refresh_calls a0 @ [force]\<rparr>
           in if refresh_lock a then (Inr (), a)
              else try_finally
                     (try_except
                        (io_bind (in_world get_snapshot) (\<lambda>snap.
                         io_bind (assign_state snap) (\<lambda>_.
                         io_bind (assign_last_error []) (\<lambda>_.
                         if force then notify ''MyAWS'' ''Data refreshed''
                         else io_return ()))))
                        (\<lambda>exc. assign_last_error (exn_str exc)))
                     (io_bind release_lock (\<lambda>_. update_menu))
                     (a\<lparr>refresh_lock := True\<rparr>))"

text \<open>
  The function \<open>runner\<close> that \<open>_run_async\<close> starts on a thread of its own. The action
  is any computation on the application (the menu's "Refresh now" is \<open>refresh(True)\<close>
  itself).
\<close>

definition runner ::
  "(world, 'snap) io \<Rightarrow> ('snap TrayApp, 'r) io \<Rightarrow> string \<Rightarrow> ('snap TrayApp, unit) io" where
  "runner get_snapshot action action_name =
     try_finally
       (try_except
          (io_bind action (\<lambda>_.
           io_bind (assign_last_error []) (\<lambda>_.
           notify ''MyAWS'' (action_name @ '' completed''))))
          (\<lambda>exc. io_bind (assign_last_error (exn_str exc)) (\<lambda>_.
                  notify ''MyAWS'' (action_name @ '' failed: '' @ exn_str exc))))
       (refresh get_snapshot True)"

subsection \<open>Interleaved calls of refresh\<close>

text \<open>
  Threads that call \<open>refresh\<close> (the timer loop, the runners) interleave between the
  statements of \<open>refresh\<close>. A thread is the statement it is at, with the \<open>force\<close> arguments
  of the calls it still has to make; a thread that an exception has left makes no more
  calls. \<open>Building\<close> is the time \<open>get_snapshot\<close> is running, its queries in flight.
\<close>

datatype 'snap pc =
  Idle
  | Acquire bool
  | Building bool
  | Store 'snap bool
  | ClearError bool
  | NotifyRefreshed
  | Handler exn
  | Release
  | Menu

type_synonym 'snap thread = "'snap pc \<times> bool list"

fun thread_step ::
  "(world, 'snap) io \<Rightarrow> 'snap thread \<Rightarrow> 'snap TrayApp \<Rightarrow> 'snap thread \<times> 'snap TrayApp" where
  "thread_step get_snapshot (Idle, []) a = ((Idle, []), a)"
| "thread_step get_snapshot (Idle, force # calls) a =
     ((Acquire force, calls), a\<lparr>refresh_calls := refresh_calls a @ [force]\<rparr>)"
| "thread_step get_snapshot (Acquire force, calls) a =
     (if refresh_lock a then ((Idle, calls), a)
      else ((Building force, calls), a\<lparr>refresh_lock := True\<rparr>))"
| "thread_step get_snapshot (Building force, calls) a =
     (case in_world get_snapshot a of
        (Inr snap, a') \<Rightarrow> ((Store snap force, calls), a')
      | (Inl exc, a') \<Rightarrow> ((Handler exc, calls), a'))"
| "thread_step get_snapshot (Store snap force, calls) a =
     ((ClearError force, calls), snd (assign_state snap a))"
| "thread_step get_snapshot (ClearError force, calls) a =
     ((if force then NotifyRefreshed else Release, calls), snd (assign_last_error [] a))"
| "thread_step get_snapshot (NotifyRefreshed, calls) a =
     ((Release, calls), snd (notify ''MyAWS'' ''Data refreshed'' a))"
| "thread_step get_snapshot (Handler exc, calls) a =
     ((Release, calls), snd (assign_last_error (exn_str exc) a))"
| "thread_step get_snapshot (Release, calls) a = ((Menu, calls), snd (release_lock a))"
| "thread_step get_snapshot (Menu, calls) a =
     (case update_menu a of
        (Inr u, a') \<Rightarrow> ((Idle, calls), a')
      | (Inl exc, a') \<Rightarrow> ((Idle, []), a'))"

type_synonym 'snap system = "'snap thread list \<times> 'snap TrayApp"

definition sys_step :: "(world, 'snap) io \<Rightarrow> nat \<Rightarrow> 'snap system \<Rightarrow> 'snap system" where
  "sys_step get_snapshot i sys =
     (case sys of (threads, a) \<Rightarrow>
        if i < length threads
        then (case thread_step get_snapshot (threads ! i) a of
                (th, a') \<Rightarrow> (threads[i := th], a'))
        else (threads, a))"

text \<open>A schedule names, step by step, the thread that moves.\<close>

definition run_schedule ::
  "(world, 'snap) io \<Rightarrow> nat list \<Rightarrow> 'snap system \<Rightarrow> 'snap system" where
  "run_schedule get_snapshot schedule sys = fold (sys_step get_snapshot) schedule sys"

fun building :: "'snap thread \<Rightarrow> bool" where
  "building (Building force, calls) = True"
| "building th = False"

text \<open>The statements between acquiring the lock and releasing it.\<close>

fun holds_lock :: "'snap thread \<Rightarrow> bool" where
  "holds_lock (Idle, calls) = False"
| "holds_lock (Acquire force, calls) = False"
| "holds_lock (Menu, calls) = False"
| "holds_lock th = True"

text \<open>The lock is held exactly when one thread is between acquiring and releasing it.\<close>

definition lock_inv :: "'snap system \<Rightarrow> bool" where
  "lock_inv sys =
     (case sys of (threads, a) \<Rightarrow>
        length (filter holds_lock threads) = (if refresh_lock a then 1 else 0))"

section \<open>The cost window and cache file, as the specification words them\<close>

text \<open>
  Stated from the specification, for comparison with \<open>get_cost_payload\<close>: the window
  starts at the first day of the current month, except on the first day of a month, when
  it starts at the first day of the month before (December of the year before, in
  January).
\<close>

definition spec_window_start :: "date \<Rightarrow> date" where
  "spec_window_start d =
     (if day d = 1
      then (if month d = 1 then \<lparr>year = year d - 1, month = 12, day = 1\<rparr>
            else \<lparr>year = year d, month = month d - 1, day = 1\<rparr>)
      else \<lparr>year = year d, month = month d, day = 1\<rparr>)"

definition date_min :: date where
  "date_min = \<lparr>year = 1, month = 1, day = 1\<rparr>"

text \<open>The cache file of a report and the command line of the cost query, by date.\<close>

definition cost_cache_path :: "MyAwsService \<Rightarrow> string \<Rightarrow> date \<Rightarrow> string" where
  "cost_cache_path svc granularity d =
     cache_file svc (if granularity = ''MONTHLY'' then ''myaws-costs-monthly''
                     else ''myaws-costs-daily'') d"

definition cost_query_command :: "MyAwsService \<Rightarrow> string \<Rightarrow> date \<Rightarrow> string list" where
  "cost_query_command svc granularity d =
     base (cli svc) @
     [''ce'', ''get-cost-and-usage'', ''--time-period'',
      ''Start='' @ strftime_Y_m_d (spec_window_start d) @ '',End='' @ strftime_Y_m_d d,
      ''--granularity'', granularity, ''--metrics'', ''BlendedCost'',
      ''--group-by'', ''Type=DIMENSION,Key=SERVICE'', ''--output'', ''json'']"

definition empty_report :: json where
  "empty_report = JObj [(''ResultsByTime'', JArr [])]"

text \<open>
  One reading of "the message indicates that cost data is not yet available": it names
  the error code the cost API uses for that condition.
\<close>

definition says_data_unavailable :: "string \<Rightarrow> bool" where
  "says_data_unavailable message = sublist ''DataUnavailableException'' message"

section \<open>Concrete worlds\<close>

text \<open>
  A world in which nothing is installed, every child process exits with status 0 and
  empty output, and the date is 2024-03-15; the scenarios below change it field by field.
\<close>

definition quiet_world :: world where
  "quiet_world =
     \<lparr>files = Map.empty,
      directories = (\<lambda>p. False),
      stat_fault = (\<lambda>p. None),
      which = (\<lambda>c. None),
      expanduser = (\<lambda>p. Inr p),
      home = ''C:/Users/me'',
      getenv = (\<lambda>v. None),
      json_loads = (\<lambda>s. Inl (Exn ValueError ''Expecting value'')),
      json_dumps = (\<lambda>v. ''null''),
      json_dumps_indent = (\<lambda>v. ''null''),
      str_other = (\<lambda>v. ''None''),
      strftime_now = (\<lambda>tr fmt. ''20240315-10h30''),
      today = \<lparr>year = 2024, month = 3, day = 15\<rparr>,
      subprocess_run = (\<lambda>tr cmd. Completed []),
      subprocess_call = (\<lambda>tr cmd. Inr 0),
      icon_notify = (\<lambda>tr message title. None),
      icon_update_menu = (\<lambda>tr. None),
      trace = []\<rparr>"

definition demo_cli :: AwsCli where
  "demo_cli =
     \<lparr>AwsCli.config = AppConfig_defaults, aws_executable = ''aws'', ssh_executable = ''ssh''\<rparr>"

definition demo_service :: MyAwsService where
  "demo_service = \<lparr>config = AppConfig_defaults, cli = demo_cli, state_dir = ''C:/state''\<rparr>"

text \<open>The AWS CLI is found as \<open>aws.exe\<close> on the search path only.\<close>

definition aws_exe_world :: world where
  "aws_exe_world =
     quiet_world\<lparr>which := (\<lambda>c. if c = ''aws.exe'' then Some ''C:/bin/aws.exe'' else None)\<rparr>"

text \<open>
  The AWS CLI is on the search path as \<open>aws\<close>, no SSH client is installed, and there is
  no user \<open>nosuchuser\<close>: expanding a path that starts with \<open>~nosuchuser\<close> raises.
\<close>

definition unknown_user_world :: world where
  "unknown_user_world =
     quiet_world
       \<lparr>which := (\<lambda>c. if c = ''aws'' then Some ''/usr/bin/aws'' else None),
        expanduser := (\<lambda>p. if prefix ''~nosuchuser'' p
                            then Inl (Exn RuntimeError ''Could not determine home directory.'')
                            else Inr p)\<rparr>"

text \<open>The configured path of the AWS CLI is a directory, and nothing is on the search path.\<close>

definition directory_world :: world where
  "directory_world = quiet_world\<lparr>directories := (\<lambda>p. p = ''C:/tools/aws'')\<rparr>"

text \<open>The replies of the AWS CLI used in the scenarios, with their parsed form.\<close>

definition aws_replies :: "string \<Rightarrow> exn + json" where
  \<open>aws_replies s =
     (if s = ''{"Instances": [{"InstanceId": "i-07"}]}''
        then Inr (JObj [(''Instances'', JArr [JObj [(''InstanceId'', JStr ''i-07'')]])])
      else if s = ''[[{"PublicDnsName": "vm.example"}]]''
        then Inr (JArr [JArr [JObj [(''PublicDnsName'', JStr ''vm.example'')]]])
      else Inl (Exn ValueError ''Expecting value''))\<close>

text \<open>
  An image update in which the remote command exits with status 1. In
  \<open>failed_command_world\<close> the cleanup terminate call succeeds; in
  \<open>failed_cleanup_world\<close> it is refused as well.
\<close>

definition failed_command_world :: world where
  \<open>failed_command_world =
     quiet_world
       \<lparr>json_loads := aws_replies,
        subprocess_run := (\<lambda>tr cmd.
          if ''run-instances'' \<in> set cmd
            then Completed ''{"Instances": [{"InstanceId": "i-07"}]}''
          else if ''describe-instances'' \<in> set cmd
            then Completed ''[[{"PublicDnsName": "vm.example"}]]''
          else Completed []),
        subprocess_call := (\<lambda>tr cmd. Inr 1)\<rparr>\<close>

definition failed_cleanup_world :: world where
  \<open>failed_cleanup_world =
     quiet_world
       \<lparr>json_loads := aws_replies,
        subprocess_run := (\<lambda>tr cmd.
          if ''run-instances'' \<in> set cmd
            then Completed ''{"Instances": [{"InstanceId": "i-07"}]}''
          else if ''describe-instances'' \<in> set cmd
            then Completed ''[[{"PublicDnsName": "vm.example"}]]''
          else if ''terminate-instances'' \<in> set cmd
            then CalledProcessError (Some ''UnauthorizedOperation'') (Some [])
                   ''Command returned non-zero exit status 254.''
          else Completed []),
        subprocess_call := (\<lambda>tr cmd. Inr 1)\<rparr>\<close>

text \<open>
  Cost queries. In \<open>cost_report_world\<close> the query succeeds with a one-period report and
  \<open>json.dumps\<close> writes the parsed report back as the same text; in the three worlds
  after it the query fails: the data is not available yet, access is denied, or the
  endpoint cannot be reached.
\<close>

definition cost_text :: string where
  \<open>cost_text = ''{"ResultsByTime": [{"Groups": []}]}''\<close>

definition cost_value :: json where
  "cost_value = JObj [(''ResultsByTime'', JArr [JObj [(''Groups'', JArr [])]])]"

definition cost_report_world :: world where
  "cost_report_world =
     quiet_world
       \<lparr>json_loads := (\<lambda>s. if s = cost_text then Inr cost_value
                            else Inl (Exn ValueError ''Expecting value'')),
        json_dumps := (\<lambda>v. if v = cost_value then cost_text else ''null''),
        subprocess_run := (\<lambda>tr cmd. Completed cost_text)\<rparr>"

definition unavailable_cost_world :: world where
  "unavailable_cost_world =
     quiet_world
       \<lparr>subprocess_run := (\<lambda>tr cmd.
          CalledProcessError
            (Some ''An error occurred (DataUnavailableException): Data is not available.'')
            (Some []) ''Command returned non-zero exit status 254.'')\<rparr>"

definition denied_cost_world :: world where
  "denied_cost_world =
     quiet_world
       \<lparr>subprocess_run := (\<lambda>tr cmd.
          CalledProcessError
            (Some (''An error occurred (AccessDeniedException) when calling the ''
                   @ ''GetCostAndUsage operation: not authorized''))
            (Some []) ''Command returned non-zero exit status 254.'')\<rparr>"

definition offline_cost_world :: world where
  "offline_cost_world =
     quiet_world
       \<lparr>subprocess_run := (\<lambda>tr cmd.
          CalledProcessError (Some ''Could not connect to the endpoint URL'')
            (Some []) ''Command returned non-zero exit status 255.'')\<rparr>"

text \<open>
  The tray application as \<open>TrayApp.__init__\<close> leaves it, over a given world, with a
  snapshot builder that runs the first query of \<open>get_snapshot\<close> and keeps its reply.
\<close>

definition fresh_app :: "world \<Rightarrow> json TrayApp" where
  "fresh_app w =
     \<lparr>state = None, last_error = [], refresh_lock = False, refresh_calls = [], outside = w\<rparr>"

definition images_query :: "(world, json) io" where
  "images_query =
     run_json demo_cli
       [JStr ''ec2'', JStr ''describe-images'', JStr ''--owners'',
        JStr (aws_owner_id AppConfig_defaults), JStr ''--query'',
        JStr ''Images[*].{ImageId:ImageId,Name:Name,SnapshotId:BlockDeviceMappings[0].Ebs.SnapshotId}'']"

text \<open>
  A configuration file under \<open>%APPDATA%\<close>: \<open>unknown_key_world\<close> holds one with a key that
  is not a field, \<open>known_keys_world\<close> one that overrides the region only.
\<close>

definition config_replies :: "string \<Rightarrow> exn + json" where
  \<open>config_replies s =
     (if s = ''{"aws_region": "us-east-1", "colour": "blue"}''
        then Inr (JObj [(''aws_region'', JStr ''us-east-1''), (''colour'', JStr ''blue'')])
      else if s = ''{"aws_region": "us-east-1"}''
        then Inr (JObj [(''aws_region'', JStr ''us-east-1'')])
      else Inl (Exn ValueError ''Expecting value''))\<close>

definition unknown_key_world :: world where
  \<open>unknown_key_world =
     quiet_world
       \<lparr>files := [''C:/AppData/MyAWS/config.json''
                    \<mapsto> ''{"aws_region": "us-east-1", "colour": "blue"}''],
        getenv := (\<lambda>v. if v = ''APPDATA'' then Some ''C:/AppData'' else None),
        json_loads := config_replies\<rparr>\<close>

definition known_keys_world :: world where
  \<open>known_keys_world =
     quiet_world
       \<lparr>files := [''C:/AppData/MyAWS/config.json'' \<mapsto> ''{"aws_region": "us-east-1"}''],
        getenv := (\<lambda>v. if v = ''APPDATA'' then Some ''C:/AppData'' else None),
        json_loads := config_replies\<rparr>\<close>

section \<open>Properties\<close>

subsection \<open>Executable resolution\<close>

lemma truthy_search_path_hit: "truthy (which w c) = search_path_hit w c"
  by (simp add: truthy_def search_path_hit_def)

lemma examined_trichotomy:
  "(\<exists>r. resolves_to w c r) \<or> (\<exists>e. examining_raises w c e) \<or> not_found w c"
proof (cases "c = []")
  case True
  then show ?thesis by (simp add: not_found_def)
next
  case nonempty: False
  show ?thesis
  proof (cases "search_path_hit w c")
    case True
    then obtain p where "which w c = Some p"
      by (auto simp: search_path_hit_def split: option.splits)
    with True nonempty have "resolves_to w c p" by (simp add: resolves_to_def)
    then show ?thesis by blast
  next
    case miss: False
    show ?thesis
    proof (cases "expanduser w c")
      case (Inl e)
      with miss nonempty have "examining_raises w c e" by (simp add: examining_raises_def)
      then show ?thesis by blast
    next
      case (Inr p)
      show ?thesis
      proof (cases "Path_exists w p")
        case (Inl e)
        with Inr miss nonempty have "examining_raises w c e"
          by (simp add: examining_raises_def)
        then show ?thesis by blast
      next
        case present: (Inr b)
        show ?thesis
        proof (cases b)
          case True
          with present Inr miss nonempty have "resolves_to w c p"
            by (simp add: resolves_to_def)
          then show ?thesis by blast
        next
          case False
          with present Inr miss have "not_found w c" by (simp add: not_found_def)
          then show ?thesis by blast
        qed
      qed
    qed
  qed
qed

lemma head_resolves:
  "resolves_to w c r \<Longrightarrow> resolve_loop w (c # cs) = Inr (Some r)"
  by (auto simp: resolves_to_def truthy_search_path_hit split: if_splits)

lemma head_raises:
  "examining_raises w c e \<Longrightarrow> resolve_loop w (c # cs) = Inl e"
  by (auto simp: examining_raises_def truthy_search_path_hit split: sum.splits)

lemma head_not_found:
  "not_found w c \<Longrightarrow> resolve_loop w (c # cs) = resolve_loop w cs"
  by (auto simp: not_found_def truthy_search_path_hit split: sum.splits)

lemma first_index_Cons:
  assumes "not_found w c"
    and "\<exists>i<length cs. P (cs ! i) \<and> (\<forall>j<i. not_found w (cs ! j))"
  shows "\<exists>i<length (c # cs). P ((c # cs) ! i) \<and> (\<forall>j<i. not_found w ((c # cs) ! j))"
proof -
  from assms(2) obtain i where i: "i < length cs" "P (cs ! i)" "\<forall>j<i. not_found w (cs ! j)"
    by blast
  have "\<forall>j<Suc i. not_found w ((c # cs) ! j)"
    using assms(1) i(3) by (auto simp: less_Suc_eq_0_disj)
  with i(1,2) have "Suc i < length (c # cs) \<and> P ((c # cs) ! Suc i)
      \<and> (\<forall>j<Suc i. not_found w ((c # cs) ! j))"
    by simp
  then show ?thesis by blast
qed

lemma first_index_head:
  "P c \<Longrightarrow> \<exists>i<length (c # cs). P ((c # cs) ! i) \<and> (\<forall>j<i. not_found w ((c # cs) ! j))"
proof -
  assume "P c"
  then have "0 < length (c # cs) \<and> P ((c # cs) ! 0) \<and> (\<forall>j<0. not_found w ((c # cs) ! j))"
    by simp
  then show ?thesis by blast
qed

lemma resolve_loop_outcome:
  "(case resolve_loop w cs of
      Inr (Some r) \<Rightarrow>
        \<exists>i<length cs. resolves_to w (cs ! i) r \<and> (\<forall>j<i. not_found w (cs ! j))
    | Inr None \<Rightarrow> \<forall>c\<in>set cs. not_found w c
    | Inl e \<Rightarrow>
        \<exists>i<length cs. examining_raises w (cs ! i) e \<and> (\<forall>j<i. not_found w (cs ! j)))"
proof (induction cs)
  case Nil
  then show ?case by simp
next
  case (Cons c cs)
  from examined_trichotomy[of w c] consider
    (found) r where "resolves_to w c r"
    | (raises) e where "examining_raises w c e"
    | (absent) "not_found w c"
    by blast
  then show ?case
  proof cases
    case found
    from first_index_head[of "\<lambda>x. resolves_to w x r", OF found]
    show ?thesis by (simp add: head_resolves[OF found] del: resolve_loop.simps)
  next
    case raises
    from first_index_head[of "\<lambda>x. examining_raises w x e", OF raises]
    show ?thesis by (simp add: head_raises[OF raises] del: resolve_loop.simps)
  next
    case absent
    show ?thesis
    proof (cases "resolve_loop w cs")
      case (Inl e)
      with Cons.IH have "\<exists>i<length cs. examining_raises w (cs ! i) e
          \<and> (\<forall>j<i. not_found w (cs ! j))" by simp
      from first_index_Cons[of w c cs "\<lambda>x. examining_raises w x e", OF absent this]
      show ?thesis by (simp add: head_not_found[OF absent] Inl del: resolve_loop.simps)
    next
      case (Inr res)
      show ?thesis
      proof (cases res)
        case None
        with Inr Cons.IH absent show ?thesis
          by (simp add: head_not_found[OF absent] del: resolve_loop.simps)
      next
        case (Some r)
        with Inr Cons.IH have "\<exists>i<length cs. resolves_to w (cs ! i) r
            \<and> (\<forall>j<i. not_found w (cs ! j))" by simp
        from first_index_Cons[of w c cs "\<lambda>x. resolves_to w x r", OF absent this]
        show ?thesis by (simp add: head_not_found[OF absent] Inr Some del: resolve_loop.simps)
      qed
    qed
  qed
qed

lemma sublist_str_join: "c \<in> set xs \<Longrightarrow> sublist c (str_join sep xs)"
proof (induction sep xs rule: str_join.induct)
  case (3 sep x y ys)
  show ?case
  proof (cases "c = x")
    case True
    then show ?thesis by simp
  next
    case False
    with 3 have "sublist c (str_join sep (y # ys))" by simp
    then obtain ps ss where "str_join sep (y # ys) = ps @ c @ ss" by (auto simp: sublist_def)
    then have "str_join sep (x # y # ys) = (x @ sep @ ps) @ c @ ss" by simp
    then show ?thesis unfolding sublist_def by blast
  qed
qed simp_all

lemma not_found_message_names:
  assumes "c \<in> set candidates" "c \<noteq> []"
  shows "sublist c (not_found_message candidates display_name)"
proof -
  from assms have "sublist c (str_join '', '' (filter (\<lambda>c. c \<noteq> []) candidates))"
    by (intro sublist_str_join) simp
  then obtain ps ss where "str_join '', '' (filter (\<lambda>c. c \<noteq> []) candidates) = ps @ c @ ss"
    by (auto simp: sublist_def)
  then have "\<exists>ps ss. not_found_message candidates display_name = ps @ c @ ss"
    unfolding not_found_message_def
    by (metis append.assoc)
  then show ?thesis by (simp add: sublist_def)
qed

text \<open>
  C9 (amended). \<open>_resolve_executable\<close> examines the candidates in order. It returns the
  path of the first candidate that resolves (on the search path, or else as an existing
  literal path), every earlier candidate being not found. It raises in two cases only:
  examining a candidate raised (the home directory of the user it names is unknown, or
  the existence test faulted) after every earlier candidate was not found, and that
  exception is the one raised, whatever the later candidates are; or no candidate was
  found, and the exception is a \<open>RuntimeError\<close> whose message contains every non-empty
  candidate. The two callers pass the configured path followed by their fixed fallback
  names.
\<close>

theorem resolve_executable_first_candidate:
  "(case resolve_executable w candidates display_name of
      Inr r \<Rightarrow>
        (\<exists>i<length candidates. resolves_to w (candidates ! i) r
            \<and> (\<forall>j<i. not_found w (candidates ! j)))
    | Inl e \<Rightarrow>
        (\<exists>i<length candidates. examining_raises w (candidates ! i) e
            \<and> (\<forall>j<i. not_found w (candidates ! j)))
        \<or> ((\<forall>c\<in>set candidates. not_found w c) \<and> exn_cls e = RuntimeError
            \<and> (\<forall>c\<in>set candidates. c \<noteq> [] \<longrightarrow> sublist c (exn_str e))))
   \<and> resolve_aws_executable w configured =
       resolve_executable w [configured, ''aws'', ''aws.exe'', ''aws.cmd''] ''AWS CLI''
   \<and> resolve_ssh_executable w configured =
       resolve_executable w [configured, ''ssh'', ''ssh.exe''] ''OpenSSH client''"
proof -
  have "case resolve_executable w candidates display_name of
      Inr r \<Rightarrow>
        (\<exists>i<length candidates. resolves_to w (candidates ! i) r
            \<and> (\<forall>j<i. not_found w (candidates ! j)))
    | Inl e \<Rightarrow>
        (\<exists>i<length candidates. examining_raises w (candidates ! i) e
            \<and> (\<forall>j<i. not_found w (candidates ! j)))
        \<or> ((\<forall>c\<in>set candidates. not_found w c) \<and> exn_cls e = RuntimeError
            \<and> (\<forall>c\<in>set candidates. c \<noteq> [] \<longrightarrow> sublist c (exn_str e)))"
  proof (cases "resolve_loop w candidates")
    case (Inl e)
    with resolve_loop_outcome[where w = w and cs = candidates] show ?thesis
      by (simp add: resolve_executable_def)
  next
    case (Inr res)
    show ?thesis
    proof (cases res)
      case None
      with Inr resolve_loop_outcome[where w = w and cs = candidates]
      have "\<forall>c\<in>set candidates. not_found w c" by simp
      with Inr None show ?thesis
        by (simp add: resolve_executable_def not_found_message_names)
    next
      case (Some r)
      with Inr resolve_loop_outcome[where w = w and cs = candidates] show ?thesis
        by (simp add: resolve_executable_def)
    qed
  qed
  then show ?thesis
    by (simp add: resolve_aws_executable_def resolve_ssh_executable_def)
qed

lemma examined_exclusive:
  "\<not> (resolves_to w c r \<and> not_found w c)" "\<not> (examining_raises w c e \<and> not_found w c)"
  "\<not> (resolves_to w c r \<and> examining_raises w c e)"
  by (auto simp: resolves_to_def not_found_def examining_raises_def split: sum.splits if_splits)

theorem resolve_executable_first_candidate_witness:
  "resolve_aws_executable aws_exe_world [] = Inr ''C:/bin/aws.exe''
   \<and> (\<exists>i<4. resolves_to aws_exe_world ([[], ''aws'', ''aws.exe'', ''aws.cmd''] ! i) ''C:/bin/aws.exe''
        \<and> (\<forall>j<i. not_found aws_exe_world ([[], ''aws'', ''aws.exe'', ''aws.cmd''] ! j)))
   \<and> (\<exists>msg. resolve_ssh_executable aws_exe_world ''plink'' = Inl (Exn RuntimeError msg)
        \<and> sublist ''plink'' msg \<and> sublist ''ssh'' msg \<and> sublist ''ssh.exe'' msg)
   \<and> resolve_aws_executable directory_world ''C:/tools/aws'' = Inr ''C:/tools/aws''"
proof -
  have a: "resolve_aws_executable aws_exe_world [] = Inr ''C:/bin/aws.exe''"
    by (simp add: resolve_aws_executable_def resolve_executable_def aws_exe_world_def
        quiet_world_def truthy_def Path_exists_def)
  have d: "resolve_aws_executable directory_world ''C:/tools/aws'' = Inr ''C:/tools/aws''"
    by (simp add: resolve_aws_executable_def resolve_executable_def directory_world_def
        quiet_world_def truthy_def Path_exists_def)
  have b: "\<exists>msg. resolve_ssh_executable aws_exe_world ''plink'' = Inl (Exn RuntimeError msg)"
    by (simp add: resolve_ssh_executable_def resolve_executable_def aws_exe_world_def
        quiet_world_def truthy_def Path_exists_def)
  from a resolve_executable_first_candidate
         [where w = aws_exe_world and candidates = "[[], ''aws'', ''aws.exe'', ''aws.cmd'']"
            and display_name = "''AWS CLI''" and configured = "[]"]
  have c: "\<exists>i<4. resolves_to aws_exe_world ([[], ''aws'', ''aws.exe'', ''aws.cmd''] ! i) ''C:/bin/aws.exe''
        \<and> (\<forall>j<i. not_found aws_exe_world ([[], ''aws'', ''aws.exe'', ''aws.cmd''] ! j))"
    by (simp add: eval_nat_numeral)
  from b obtain msg where
    m: "resolve_ssh_executable aws_exe_world ''plink'' = Inl (Exn RuntimeError msg)" by blast
  then have m': "resolve_executable aws_exe_world [''plink'', ''ssh'', ''ssh.exe'']
      ''OpenSSH client'' = Inl (Exn RuntimeError msg)"
    by (simp add: resolve_ssh_executable_def)
  have nf: "\<forall>c\<in>set [''plink'', ''ssh'', ''ssh.exe'']. not_found aws_exe_world c"
    by (simp add: not_found_def search_path_hit_def aws_exe_world_def quiet_world_def
        Path_exists_def)
  have "sublist ''plink'' msg \<and> sublist ''ssh'' msg \<and> sublist ''ssh.exe'' msg"
    using resolve_executable_first_candidate
         [where w = aws_exe_world and candidates = "[''plink'', ''ssh'', ''ssh.exe'']"
            and display_name = "''OpenSSH client''" and configured = "''plink''"]
      nf examined_exclusive(2)[of aws_exe_world]
    unfolding m' by (auto simp: less_Suc_eq_0_disj eval_nat_numeral)
  with a c m d show ?thesis by blast
qed

theorem resolve_unknown_user_counterexample:
  "resolves_to unknown_user_world ''aws'' ''/usr/bin/aws''
   \<and> resolve_aws_executable unknown_user_world ''~nosuchuser/bin/aws''
       = Inl (Exn RuntimeError ''Could not determine home directory.'')
   \<and> resolve_ssh_executable unknown_user_world ''~nosuchuser/bin/ssh''
       = Inl (Exn RuntimeError ''Could not determine home directory.'')
   \<and> \<not> sublist ''ssh.exe'' ''Could not determine home directory.''"
proof -
  have a: "resolves_to unknown_user_world ''aws'' ''/usr/bin/aws''"
    by (simp add: resolves_to_def search_path_hit_def unknown_user_world_def quiet_world_def)
  have b: "resolve_aws_executable unknown_user_world ''~nosuchuser/bin/aws''
       = Inl (Exn RuntimeError ''Could not determine home directory.'')"
    by code_simp
  have c: "resolve_ssh_executable unknown_user_world ''~nosuchuser/bin/ssh''
       = Inl (Exn RuntimeError ''Could not determine home directory.'')"
    by code_simp
  have d: "\<not> sublist ''ssh.exe'' ''Could not determine home directory.''"
    by code_simp
  from a b c d show ?thesis by blast
qed

subsection \<open>The command runner: what a call adds to the log\<close>

lemma arg_strings_append:
  "arg_strings (xs @ ys) =
     (case arg_strings xs of None \<Rightarrow> None
      | Some a \<Rightarrow> (case arg_strings ys of None \<Rightarrow> None | Some b \<Rightarrow> Some (a @ b)))"
  by (induction xs rule: arg_strings.induct) (auto split: option.splits)

lemma arg_strings_map_JStr: "arg_strings (map JStr xs) = Some xs"
  by (induction xs) auto

lemma arg_strings_Cons:
  "arg_strings (v # rest) =
     (case v of
        JStr s \<Rightarrow> (case arg_strings rest of None \<Rightarrow> None | Some b \<Rightarrow> Some (s # b))
      | _ \<Rightarrow> None)"
  by (cases v; cases "arg_strings rest"; simp)

lemma snd_run:
  "snd (run c args w) =
     (case arg_strings args of None \<Rightarrow> w
      | Some ss \<Rightarrow> log_effect (Subprocess (base c @ ss)) w)"
  by (auto simp: run_def arg_strings_append arg_strings_map_JStr Let_def
           split: option.splits proc_result.splits)

lemma run_Inr_args: "run c args w = (Inr out, w') \<Longrightarrow> \<exists>ss. arg_strings args = Some ss"
  by (auto simp: run_def arg_strings_append arg_strings_map_JStr split: option.splits)

lemma snd_run_no_output: "snd (run_no_output c args w) = snd (run c args w)"
  by (cases "run c args w")
     (auto simp: run_no_output_def io_bind_def io_return_def split: sum.splits)

lemma run_no_output_Inr_args:
  "run_no_output c args w = (Inr u, w') \<Longrightarrow> \<exists>ss. arg_strings args = Some ss"
  by (cases "run c args w")
     (auto simp: run_no_output_def io_bind_def io_return_def split: sum.splits
           dest: run_Inr_args)

lemma snd_run_json:
  "snd (run_json c args w) = snd (run c (args @ [JStr ''--output'', JStr ''json'']) w)"
  by (cases "run c (args @ [JStr ''--output'', JStr ''json'']) w")
     (auto simp: run_json_def run_text_def io_bind_def io_return_def split: sum.splits)

lemma run_json_Inr_args:
  "run_json c args w = (Inr v, w') \<Longrightarrow> \<exists>ss. arg_strings args = Some ss"
  by (cases "run c (args @ [JStr ''--output'', JStr ''json'']) w")
     (auto simp: run_json_def run_text_def io_bind_def io_return_def arg_strings_append
           split: sum.splits option.splits dest!: run_Inr_args)

lemma snd_terminate_instance:
  "snd (terminate_instance svc (JStr i) w) =
     log_effect (Subprocess
       (base (cli svc) @ [''ec2'', ''terminate-instances'', ''--instance-ids'', i])) w"
  by (simp add: terminate_instance_def snd_run_no_output snd_run)

lemma snd_run_instance:
  assumes "run_instance svc image_id instance_type w = (Inr instance_id, w1)"
  shows "\<exists>a t. image_id = JStr a \<and> instance_type = JStr t \<and>
       w1 = log_effect (Subprocess (base (cli svc) @
              [''ec2'', ''run-instances'', ''--image-id'', a, ''--instance-type'', t,
               ''--ebs-optimized'', ''--key-name'', aws_key_name (config svc),
               ''--security-group-ids'', aws_security_group_id (config svc),
               ''--output'', ''json''])) w"
proof -
  let ?args = "[JStr ''ec2'', JStr ''run-instances'', JStr ''--image-id'', image_id,
           JStr ''--instance-type'', instance_type, JStr ''--ebs-optimized'',
           JStr ''--key-name'', JStr (aws_key_name (config svc)),
           JStr ''--security-group-ids'', JStr (aws_security_group_id (config svc))]"
  obtain r w' where rj: "run_json (cli svc) ?args w = (r, w')"
    by (cases "run_json (cli svc) ?args w")
  with assms obtain v where r: "r = Inr v" and w1: "w1 = w'"
    by (auto simp: run_instance_def io_bind_def io_result_def split: sum.splits)
  from run_json_Inr_args[OF rj[unfolded r]] obtain ss where ss: "arg_strings ?args = Some ss"
    by blast
  then obtain a t where at: "image_id = JStr a" "instance_type = JStr t"
    by (auto simp: arg_strings_Cons split: json.splits option.splits)
  have "w' = snd (run_json (cli svc) ?args w)" using rj by simp
  then show ?thesis using at w1
    by (simp add: snd_run_json snd_run)
qed


subsection \<open>Image update: cleanup and failure of the remote command\<close>

text \<open>
  C1 (amended). Once the worker is launched, if a later step of \<open>update_image\<close> raises,
  the handler calls \<open>terminate_instance\<close> on the worker (for an instance id that is a
  string, the terminate command is the next process run); when that call returns, the
  original exception is re-raised; when that call raises, its exception is the one that
  reaches the caller.
\<close>

theorem update_image_cleanup_then_reraise:
  assumes launched:
      "run_instance svc ami_to_update
         (JStr (if rebuild then default_vmtype_rebuild (config svc)
                else default_vmtype_update (config svc))) w = (Inr instance_id, w1)"
    and raised:
      "update_steps svc ami_to_update ami_snapshot_id
         (if rebuild then rebuild_command (config svc) else update_command (config svc))
         instance_id w1 = (Inl exc, w2)"
  shows "update_image svc ami_to_update ami_snapshot_id rebuild w =
           (case terminate_instance svc instance_id w2 of
              (Inr u, w3) \<Rightarrow> (Inl exc, w3)
            | (Inl cleanup_exc, w3) \<Rightarrow> (Inl cleanup_exc, w3))
         \<and> (\<forall>i. instance_id = JStr i \<longrightarrow>
               trace (snd (update_image svc ami_to_update ami_snapshot_id rebuild w)) =
                 trace w2 @ [Subprocess (base (cli svc) @
                   [''ec2'', ''terminate-instances'', ''--instance-ids'', i])])"
proof -
  have eq: "update_image svc ami_to_update ami_snapshot_id rebuild w =
           (case terminate_instance svc instance_id w2 of
              (Inr u, w3) \<Rightarrow> (Inl exc, w3)
            | (Inl cleanup_exc, w3) \<Rightarrow> (Inl cleanup_exc, w3))"
    using launched raised
    by (cases rebuild)
       (simp_all add: update_image_def Let_def io_bind_def try_except_def io_raise_def
          split: prod.splits sum.splits)
  have "snd (update_image svc ami_to_update ami_snapshot_id rebuild w) =
          snd (terminate_instance svc instance_id w2)"
    unfolding eq by (simp split: prod.splits sum.splits)
  then have "\<forall>i. instance_id = JStr i \<longrightarrow>
               trace (snd (update_image svc ami_to_update ami_snapshot_id rebuild w)) =
                 trace w2 @ [Subprocess (base (cli svc) @
                   [''ec2'', ''terminate-instances'', ''--instance-ids'', i])]"
    by (simp add: snd_terminate_instance log_effect_def)
  with eq show ?thesis by blast
qed


theorem update_image_cleanup_then_reraise_witness:
  "fst (update_image demo_service (JStr ''ami-1'') (JStr ''snap-1'') False failed_command_world)
     = Inl (Exn RuntimeError ''Remote update command failed'')
   \<and> last (trace (snd (update_image demo_service (JStr ''ami-1'') (JStr ''snap-1'') False
                         failed_command_world)))
     = Subprocess [''aws'', ''--region'', ''eu-central-1'', ''ec2'', ''terminate-instances'',
                   ''--instance-ids'', ''i-07'']"
proof -
  let ?vm = "JStr (if False then default_vmtype_rebuild (config demo_service)
                   else default_vmtype_update (config demo_service))"
  let ?cmd = "if False then rebuild_command (config demo_service)
              else update_command (config demo_service)"
  let ?w1 = "snd (run_instance demo_service (JStr ''ami-1'') ?vm failed_command_world)"
  let ?w2 = "snd (update_steps demo_service (JStr ''ami-1'') (JStr ''snap-1'') ?cmd
                    (JStr ''i-07'') ?w1)"
  have "fst (run_instance demo_service (JStr ''ami-1'') ?vm failed_command_world)
          = Inr (JStr ''i-07'')"
    by code_simp
  then have launched: "run_instance demo_service (JStr ''ami-1'') ?vm failed_command_world
          = (Inr (JStr ''i-07''), ?w1)"
    by (simp add: prod_eq_iff)
  have "fst (update_steps demo_service (JStr ''ami-1'') (JStr ''snap-1'') ?cmd (JStr ''i-07'') ?w1)
          = Inl (Exn RuntimeError ''Remote update command failed'')"
    by code_simp
  then have raised: "update_steps demo_service (JStr ''ami-1'') (JStr ''snap-1'') ?cmd
          (JStr ''i-07'') ?w1 = (Inl (Exn RuntimeError ''Remote update command failed''), ?w2)"
    by (simp add: prod_eq_iff)
  have cleanup: "fst (terminate_instance demo_service (JStr ''i-07'') ?w2) = Inr ()"
    by code_simp
  have base: "base (cli demo_service) = [''aws'', ''--region'', ''eu-central-1'']"
    by code_simp
  note main = update_image_cleanup_then_reraise[OF launched raised]
  from main have tr: "trace (snd (update_image demo_service (JStr ''ami-1'') (JStr ''snap-1'')
        False failed_command_world)) = trace ?w2 @ [Subprocess (base (cli demo_service) @
          [''ec2'', ''terminate-instances'', ''--instance-ids'', ''i-07''])]"
    by blast
  from main cleanup have "fst (update_image demo_service (JStr ''ami-1'') (JStr ''snap-1'') False
        failed_command_world) = Inl (Exn RuntimeError ''Remote update command failed'')"
    by (cases "terminate_instance demo_service (JStr ''i-07'') ?w2") auto
  then show ?thesis
    by (simp add: tr base)
qed

theorem update_image_cleanup_failure_counterexample:
  "fst (run_instance demo_service (JStr ''ami-1'') (JStr ''m7i.12xlarge'') failed_cleanup_world)
     = Inr (JStr ''i-07'')
   \<and> fst (update_steps demo_service (JStr ''ami-1'') (JStr ''snap-1'') ''update'' (JStr ''i-07'')
            (snd (run_instance demo_service (JStr ''ami-1'') (JStr ''m7i.12xlarge'')
                    failed_cleanup_world)))
     = Inl (Exn RuntimeError ''Remote update command failed'')
   \<and> fst (update_image demo_service (JStr ''ami-1'') (JStr ''snap-1'') False failed_cleanup_world)
     = Inl (Exn RuntimeError ''AWS CLI call failed: UnauthorizedOperation'')
   \<and> fst (update_image demo_service (JStr ''ami-1'') (JStr ''snap-1'') False failed_cleanup_world)
     \<noteq> Inl (Exn RuntimeError ''Remote update command failed'')"
proof -
  have a: "fst (run_instance demo_service (JStr ''ami-1'') (JStr ''m7i.12xlarge'')
             failed_cleanup_world) = Inr (JStr ''i-07'')"
    by code_simp
  have b: "fst (update_steps demo_service (JStr ''ami-1'') (JStr ''snap-1'') ''update''
             (JStr ''i-07'')
             (snd (run_instance demo_service (JStr ''ami-1'') (JStr ''m7i.12xlarge'')
                     failed_cleanup_world)))
           = Inl (Exn RuntimeError ''Remote update command failed'')"
    by code_simp
  have c: "fst (update_image demo_service (JStr ''ami-1'') (JStr ''snap-1'') False
             failed_cleanup_world)
           = Inl (Exn RuntimeError ''AWS CLI call failed: UnauthorizedOperation'')"
    by code_simp
  from a b c show ?thesis by simp
qed


lemma run_ssh_world:
  "run_ssh c host cmd w = (Inr outcome, w') \<Longrightarrow>
     \<exists>ssh_args. w' = log_effect (SshCall ssh_args) w"
  by (auto simp: run_ssh_def Let_def split: sum.splits)

text \<open>
  C7. When the steps of \<open>update_image\<close> up to the remote command succeed and the remote
  command exits with a non-zero status, \<open>update_image\<close> raises; the processes it has run
  are, in order, the launch, the wait, the describe, the sleep, the SSH call and the
  terminate command for the worker, and nothing else: no create-image command is run.
\<close>

theorem update_image_remote_command_fails:
  assumes launched:
      "run_instance svc ami_to_update
         (JStr (if rebuild then default_vmtype_rebuild (config svc)
                else default_vmtype_update (config svc))) w = (Inr instance_id, w1)"
    and running:
      "run_no_output (cli svc)
         [JStr ''ec2'', JStr ''wait'', JStr ''instance-running'',
          JStr ''--instance-ids'', instance_id] w1 = (Inr (), w2)"
    and described:
      "run_json (cli svc)
         [JStr ''ec2'', JStr ''describe-instances'', JStr ''--instance-ids'', instance_id,
          JStr ''--query'',
          JStr ''Reservations[*].Instances[*].{PublicDnsName:PublicDnsName}''] w2
         = (Inr data, w3)"
    and dns:
      "res_bind (getitem_0 data) (\<lambda>a.
         res_bind (getitem_0 a) (\<lambda>b. getitem_key b ''PublicDnsName'')) = Inr dns_name"
    and ssh:
      "run_ssh (cli svc) dns_name
         (if rebuild then rebuild_command (config svc) else update_command (config svc))
         (snd (sleep 60 w3)) = (Inr outcome, w4)"
    and nonzero: "outcome \<noteq> 0"
  shows "\<exists>i a ssh_args e w5.
           instance_id = JStr i \<and> ami_to_update = JStr a
         \<and> update_image svc ami_to_update ami_snapshot_id rebuild w = (Inl e, w5)
         \<and> trace w5 = trace w @
              [Subprocess (base (cli svc) @
                 [''ec2'', ''run-instances'', ''--image-id'', a, ''--instance-type'',
                  (if rebuild then default_vmtype_rebuild (config svc)
                   else default_vmtype_update (config svc)),
                  ''--ebs-optimized'', ''--key-name'', aws_key_name (config svc),
                  ''--security-group-ids'', aws_security_group_id (config svc),
                  ''--output'', ''json'']),
               Subprocess (base (cli svc) @
                 [''ec2'', ''wait'', ''instance-running'', ''--instance-ids'', i]),
               Subprocess (base (cli svc) @
                 [''ec2'', ''describe-instances'', ''--instance-ids'', i, ''--query'',
                  ''Reservations[*].Instances[*].{PublicDnsName:PublicDnsName}'',
                  ''--output'', ''json'']),
               Sleep 60,
               SshCall ssh_args,
               Subprocess (base (cli svc) @
                 [''ec2'', ''terminate-instances'', ''--instance-ids'', i])]
         \<and> (\<forall>name. Subprocess (base (cli svc) @
                 [''ec2'', ''create-image'', ''--instance-id'', i, ''--name'', name,
                  ''--output'', ''json''])
               \<notin> set (drop (length (trace w)) (trace w5)))"
proof -
  let ?vm = "if rebuild then default_vmtype_rebuild (config svc)
             else default_vmtype_update (config svc)"
  let ?cmd = "if rebuild then rebuild_command (config svc) else update_command (config svc)"
  from snd_run_instance[OF launched] obtain a where a: "ami_to_update = JStr a"
    and w1: "w1 = log_effect (Subprocess (base (cli svc) @
              [''ec2'', ''run-instances'', ''--image-id'', a, ''--instance-type'', ?vm,
               ''--ebs-optimized'', ''--key-name'', aws_key_name (config svc),
               ''--security-group-ids'', aws_security_group_id (config svc),
               ''--output'', ''json''])) w"
    by auto
  from run_no_output_Inr_args[OF running] obtain i where i: "instance_id = JStr i"
    by (auto simp: arg_strings_Cons split: json.splits option.splits)
  have "w2 = snd (run_no_output (cli svc)
         [JStr ''ec2'', JStr ''wait'', JStr ''instance-running'',
          JStr ''--instance-ids'', instance_id] w1)"
    using running by simp
  then have w2: "w2 = log_effect (Subprocess (base (cli svc) @
                 [''ec2'', ''wait'', ''instance-running'', ''--instance-ids'', i])) w1"
    by (simp add: i snd_run_no_output snd_run)
  have "w3 = snd (run_json (cli svc)
         [JStr ''ec2'', JStr ''describe-instances'', JStr ''--instance-ids'', instance_id,
          JStr ''--query'',
          JStr ''Reservations[*].Instances[*].{PublicDnsName:PublicDnsName}''] w2)"
    using described by simp
  then have w3: "w3 = log_effect (Subprocess (base (cli svc) @
                 [''ec2'', ''describe-instances'', ''--instance-ids'', i, ''--query'',
                  ''Reservations[*].Instances[*].{PublicDnsName:PublicDnsName}'',
                  ''--output'', ''json''])) w2"
    by (simp add: i snd_run_json snd_run)
  from run_ssh_world[OF ssh] obtain ssh_args where
    w4: "w4 = log_effect (SshCall ssh_args) (log_effect (Sleep 60) w3)"
    by (auto simp: sleep_def)
  obtain r w5 where t: "terminate_instance svc instance_id w4 = (r, w5)"
    by (cases "terminate_instance svc instance_id w4")
  have steps: "update_steps svc ami_to_update ami_snapshot_id ?cmd instance_id w1
                 = (Inl (Exn RuntimeError ''Remote update command failed''), w4)"
    unfolding update_steps_def
    using running described dns ssh nonzero
    by (simp add: io_bind_def io_result_def io_raise_def sleep_def)
  have "\<exists>e. update_image svc ami_to_update ami_snapshot_id rebuild w = (Inl e, w5)"
    using launched steps t
    by (cases rebuild; cases r)
       (simp_all add: update_image_def Let_def io_bind_def try_except_def io_raise_def)
  then obtain e where e: "update_image svc ami_to_update ami_snapshot_id rebuild w = (Inl e, w5)"
    by blast
  have "w5 = snd (terminate_instance svc (JStr i) w4)"
    using t i by simp
  then have w5: "w5 = log_effect (Subprocess (base (cli svc) @
                 [''ec2'', ''terminate-instances'', ''--instance-ids'', i])) w4"
    by (simp add: snd_terminate_instance)
  have tr: "trace w5 = trace w @
              [Subprocess (base (cli svc) @
                 [''ec2'', ''run-instances'', ''--image-id'', a, ''--instance-type'', ?vm,
                  ''--ebs-optimized'', ''--key-name'', aws_key_name (config svc),
                  ''--security-group-ids'', aws_security_group_id (config svc),
                  ''--output'', ''json'']),
               Subprocess (base (cli svc) @
                 [''ec2'', ''wait'', ''instance-running'', ''--instance-ids'', i]),
               Subprocess (base (cli svc) @
                 [''ec2'', ''describe-instances'', ''--instance-ids'', i, ''--query'',
                  ''Reservations[*].Instances[*].{PublicDnsName:PublicDnsName}'',
                  ''--output'', ''json'']),
               Sleep 60,
               SshCall ssh_args,
               Subprocess (base (cli svc) @
                 [''ec2'', ''terminate-instances'', ''--instance-ids'', i])]"
    by (simp add: w1 w2 w3 w4 w5 log_effect_def)
  have "\<forall>name. Subprocess (base (cli svc) @
                 [''ec2'', ''create-image'', ''--instance-id'', i, ''--name'', name,
                  ''--output'', ''json''])
               \<notin> set (drop (length (trace w)) (trace w5))"
    unfolding tr by simp
  with i a e tr show ?thesis by blast
qed


theorem update_image_remote_command_fails_witness:
  "(\<exists>e w5. update_image demo_service (JStr ''ami-1'') (JStr ''snap-1'') False
              failed_command_world = (Inl e, w5)
      \<and> length (trace w5) = 6
      \<and> last (trace w5) = Subprocess (base (cli demo_service) @
            [''ec2'', ''terminate-instances'', ''--instance-ids'', ''i-07'']))"
proof -
  let ?vm = "JStr (if False then default_vmtype_rebuild (config demo_service)
                   else default_vmtype_update (config demo_service))"
  let ?cmd = "if False then rebuild_command (config demo_service)
              else update_command (config demo_service)"
  let ?wait = "[JStr ''ec2'', JStr ''wait'', JStr ''instance-running'',
          JStr ''--instance-ids'', JStr ''i-07'']"
  let ?desc = "[JStr ''ec2'', JStr ''describe-instances'', JStr ''--instance-ids'',
          JStr ''i-07'', JStr ''--query'',
          JStr ''Reservations[*].Instances[*].{PublicDnsName:PublicDnsName}'']"
  let ?data = "JArr [JArr [JObj [(''PublicDnsName'', JStr ''vm.example'')]]]"
  let ?w1 = "snd (run_instance demo_service (JStr ''ami-1'') ?vm failed_command_world)"
  let ?w2 = "snd (run_no_output (cli demo_service) ?wait ?w1)"
  let ?w3 = "snd (run_json (cli demo_service) ?desc ?w2)"
  let ?w4 = "snd (run_ssh (cli demo_service) (JStr ''vm.example'') ?cmd (snd (sleep 60 ?w3)))"
  have "fst (run_instance demo_service (JStr ''ami-1'') ?vm failed_command_world)
          = Inr (JStr ''i-07'')"
    by code_simp
  then have launched: "run_instance demo_service (JStr ''ami-1'') ?vm failed_command_world
          = (Inr (JStr ''i-07''), ?w1)"
    by (simp add: prod_eq_iff)
  have "fst (run_no_output (cli demo_service) ?wait ?w1) = Inr ()"
    by code_simp
  then have running: "run_no_output (cli demo_service) ?wait ?w1 = (Inr (), ?w2)"
    by (simp add: prod_eq_iff)
  have "fst (run_json (cli demo_service) ?desc ?w2) = Inr ?data"
    by code_simp
  then have described: "run_json (cli demo_service) ?desc ?w2 = (Inr ?data, ?w3)"
    by (simp add: prod_eq_iff)
  have dns: "res_bind (getitem_0 ?data) (\<lambda>a.
         res_bind (getitem_0 a) (\<lambda>b. getitem_key b ''PublicDnsName''))
         = Inr (JStr ''vm.example'')"
    by (simp add: res_bind_def)
  have "fst (run_ssh (cli demo_service) (JStr ''vm.example'') ?cmd (snd (sleep 60 ?w3)))
          = Inr 1"
    by code_simp
  then have ssh: "run_ssh (cli demo_service) (JStr ''vm.example'') ?cmd (snd (sleep 60 ?w3))
          = (Inr 1, ?w4)"
    by (simp add: prod_eq_iff)
  have nonzero: "(1::int) \<noteq> 0" by simp
  have start: "trace failed_command_world = []"
    by (simp add: failed_command_world_def quiet_world_def)
  from update_image_remote_command_fails
         [OF launched running described dns ssh nonzero, of "JStr ''snap-1''"]
  obtain e w5 ssh_args where
    "update_image demo_service (JStr ''ami-1'') (JStr ''snap-1'') False
       failed_command_world = (Inl e, w5)"
    "length (trace w5) = 6"
    "last (trace w5) = Subprocess (base (cli demo_service) @
            [''ec2'', ''terminate-instances'', ''--instance-ids'', ''i-07''])"
    by (auto simp: start)
  then show ?thesis by blast
qed

subsection \<open>Cost reports: the window, the cache and failures of the query\<close>

lemma replace_day_1:
  "replace_day d 1 = Inr (d\<lparr>day := 1\<rparr>)"
  "replace_day d (Suc 0) = Inr (d\<lparr>day := Suc 0\<rparr>)"
  by (simp_all add: replace_day_def days_in_month_def)

lemma month_start_computed:
  assumes "valid_date d" "d \<noteq> date_min"
  shows "res_bind (replace_day d 1) (\<lambda>month_start.
           if d = month_start
           then res_bind (minus_one_day month_start) (\<lambda>p. replace_day p 1)
           else Inr month_start) = Inr (spec_window_start d)"
proof (cases "day d = 1")
  case False
  then have "d \<noteq> d\<lparr>day := 1\<rparr>"
    by (metis date.select_convs(3) date.surjective date.update_convs(3))
  with False show ?thesis
    by (simp add: res_bind_def replace_day_1 spec_window_start_def)
next
  case True
  then have same: "d = d\<lparr>day := 1\<rparr>" by simp
  show ?thesis
  proof (cases "month d = 1")
    case False
    with assms True have "1 < month d" by (simp add: valid_date_def)
    with True same show ?thesis
      by (simp add: res_bind_def replace_day_1 spec_window_start_def
          minus_one_day_def)
  next
    case m: True
    with assms True have "1 < year d"
      by (cases d) (auto simp: valid_date_def date_min_def)
    with True m same show ?thesis
      by (simp add: res_bind_def replace_day_1 spec_window_start_def
          minus_one_day_def days_in_month_def)
  qed
qed

lemma get_cost_payload_cases:
  assumes "valid_date (today w)" "today w \<noteq> date_min"
  shows "get_cost_payload svc granularity w =
    (case files w (cost_cache_path svc granularity (today w)) of
       Some content \<Rightarrow> (json_loads w content, w)
     | None \<Rightarrow>
        (case run_json (cli svc)
                (cost_query_args (spec_window_start (today w)) (today w) granularity) w of
           (Inl e, w1) \<Rightarrow>
             if exn_cls e = RuntimeError
                \<and> (sublist ''DataUnavailableException'' (exn_str e)
                     \<or> sublist ''GetCostAndUsage'' (exn_str e))
             then (Inr empty_report, w1) else (Inl e, w1)
         | (Inr payload, w1) \<Rightarrow>
             (Inr payload,
              log_effect
                (WriteText (cost_cache_path svc granularity (today w)) (json_dumps w1 payload))
                (w1\<lparr>files := (files w1)(cost_cache_path svc granularity (today w)
                                         \<mapsto> json_dumps w1 payload)\<rparr>))))"
proof -
  note ms = month_start_computed[OF assms]
  show ?thesis
  proof (cases "day (today w) = 1")
    case True
    then have same: "today w = (today w)\<lparr>day := 1\<rparr>" by simp
    from ms True same
    have m: "res_bind (minus_one_day ((today w)\<lparr>day := 1\<rparr>)) (\<lambda>p. replace_day p 1)
             = Inr (spec_window_start (today w))"
      by (simp add: res_bind_def replace_day_1)
    show ?thesis
      unfolding get_cost_payload_def
      using same m
      by (simp add: io_bind_def io_result_def io_return_def io_raise_def replace_day_1
          Let_def path_exists_def read_text_def write_text_def
          try_except_runtime_def try_except_def cost_cache_path_def empty_report_def
          split: option.splits prod.splits sum.splits)
  next
    case False
    then have diff: "today w \<noteq> (today w)\<lparr>day := 1\<rparr>"
      by (metis date.select_convs(3) date.surjective date.update_convs(3))
    from ms diff have m: "(today w)\<lparr>day := 1\<rparr> = spec_window_start (today w)"
      by (simp add: res_bind_def replace_day_1)
    show ?thesis
      unfolding get_cost_payload_def
      using diff m
      by (simp add: io_bind_def io_result_def io_return_def io_raise_def replace_day_1
          Let_def path_exists_def read_text_def write_text_def
          try_except_runtime_def try_except_def cost_cache_path_def empty_report_def
          split: option.splits prod.splits sum.splits)
  qed
qed


lemma arg_strings_cost_query:
  "arg_strings (cost_query_args ms d granularity) =
     Some [''ce'', ''get-cost-and-usage'', ''--time-period'',
           ''Start='' @ strftime_Y_m_d ms @ '',End='' @ strftime_Y_m_d d,
           ''--granularity'', granularity, ''--metrics'', ''BlendedCost'',
           ''--group-by'', ''Type=DIMENSION,Key=SERVICE'']"
  by (simp add: cost_query_args_def)

lemma snd_cost_query:
  "snd (run_json (cli svc) (cost_query_args (spec_window_start d) d granularity) w) =
     log_effect (Subprocess (cost_query_command svc granularity d)) w"
  by (simp add: snd_run_json snd_run arg_strings_append arg_strings_cost_query
      cost_query_command_def)

lemma cost_query_first_effect:
  assumes "valid_date (today w)" "today w \<noteq> date_min"
    and "files w (cost_cache_path svc granularity (today w)) = None"
  shows "take (Suc (length (trace w))) (trace (snd (get_cost_payload svc granularity w))) =
           trace w @ [Subprocess (cost_query_command svc granularity (today w))]"
proof -
  let ?q = "run_json (cli svc)
              (cost_query_args (spec_window_start (today w)) (today w) granularity) w"
  have w1: "snd ?q = log_effect (Subprocess (cost_query_command svc granularity (today w))) w"
    by (rule snd_cost_query)
  show ?thesis
    unfolding get_cost_payload_cases[OF assms(1,2)] assms(3)
    using w1
    by (cases ?q) (auto simp: log_effect_def split: sum.splits)
qed

text \<open>
  C8. Whenever \<open>_get_cost_payload\<close> queries the cost API (no cache file for today), the
  command it runs carries the time period \<open>Start=S,End=T\<close> with \<open>T\<close> today's date and
  \<open>S\<close> the first day of the current month, or the first day of the month before when
  today is the first day of a month. The system date is any date but 0001-01-01, from
  which the source cannot step back a day.
\<close>

theorem cost_query_window:
  assumes "valid_date (today w)" "today w \<noteq> date_min"
    and "files w (cost_cache_path svc granularity (today w)) = None"
  shows "take (Suc (length (trace w))) (trace (snd (get_cost_payload svc granularity w))) =
           trace w @
           [Subprocess (base (cli svc) @
              [''ce'', ''get-cost-and-usage'', ''--time-period'',
               ''Start='' @ strftime_Y_m_d (spec_window_start (today w))
                 @ '',End='' @ strftime_Y_m_d (today w),
               ''--granularity'', granularity, ''--metrics'', ''BlendedCost'',
               ''--group-by'', ''Type=DIMENSION,Key=SERVICE'', ''--output'', ''json''])]"
  using cost_query_first_effect[OF assms]
  by (simp add: cost_query_command_def)


theorem cost_query_window_witness:
  "take 1 (trace (snd (get_cost_payload demo_service ''MONTHLY''
             (quiet_world\<lparr>today := \<lparr>year = 2024, month = 3, day = 1\<rparr>\<rparr>)))) =
     [Subprocess [''aws'', ''--region'', ''eu-central-1'', ''ce'', ''get-cost-and-usage'',
        ''--time-period'', ''Start=2024-02-01,End=2024-03-01'',
        ''--granularity'', ''MONTHLY'', ''--metrics'', ''BlendedCost'',
        ''--group-by'', ''Type=DIMENSION,Key=SERVICE'', ''--output'', ''json'']]
   \<and> take 1 (trace (snd (get_cost_payload demo_service ''DAILY''
             (quiet_world\<lparr>today := \<lparr>year = 2025, month = 1, day = 1\<rparr>\<rparr>)))) =
     [Subprocess [''aws'', ''--region'', ''eu-central-1'', ''ce'', ''get-cost-and-usage'',
        ''--time-period'', ''Start=2024-12-01,End=2025-01-01'',
        ''--granularity'', ''DAILY'', ''--metrics'', ''BlendedCost'',
        ''--group-by'', ''Type=DIMENSION,Key=SERVICE'', ''--output'', ''json'']]
   \<and> take 1 (trace (snd (get_cost_payload demo_service ''DAILY'' quiet_world))) =
     [Subprocess [''aws'', ''--region'', ''eu-central-1'', ''ce'', ''get-cost-and-usage'',
        ''--time-period'', ''Start=2024-03-01,End=2024-03-15'',
        ''--granularity'', ''DAILY'', ''--metrics'', ''BlendedCost'',
        ''--group-by'', ''Type=DIMENSION,Key=SERVICE'', ''--output'', ''json'']]"
proof -
  let ?a = "quiet_world\<lparr>today := \<lparr>year = 2024, month = 3, day = 1\<rparr>\<rparr>"
  let ?b = "quiet_world\<lparr>today := \<lparr>year = 2025, month = 1, day = 1\<rparr>\<rparr>"
  have base: "base (cli demo_service) = [''aws'', ''--region'', ''eu-central-1'']"
    by code_simp
  have va: "valid_date (today ?a)" "today ?a \<noteq> date_min"
    "files ?a (cost_cache_path demo_service ''MONTHLY'' (today ?a)) = None"
    "trace ?a = []"
    by (simp_all add: quiet_world_def valid_date_def days_in_month_def date_min_def)
  have sa: "strftime_Y_m_d (spec_window_start (today ?a)) = ''2024-02-01''"
    "strftime_Y_m_d (today ?a) = ''2024-03-01''"
    by code_simp+
  have vb: "valid_date (today ?b)" "today ?b \<noteq> date_min"
    "files ?b (cost_cache_path demo_service ''DAILY'' (today ?b)) = None"
    "trace ?b = []"
    by (simp_all add: quiet_world_def valid_date_def days_in_month_def date_min_def)
  have sb: "strftime_Y_m_d (spec_window_start (today ?b)) = ''2024-12-01''"
    "strftime_Y_m_d (today ?b) = ''2025-01-01''"
    by code_simp+
  have vc: "valid_date (today quiet_world)" "today quiet_world \<noteq> date_min"
    "files quiet_world (cost_cache_path demo_service ''DAILY'' (today quiet_world)) = None"
    "trace quiet_world = []"
    by (simp_all add: quiet_world_def valid_date_def days_in_month_def date_min_def is_leap_def)
  have sc: "strftime_Y_m_d (spec_window_start (today quiet_world)) = ''2024-03-01''"
    "strftime_Y_m_d (today quiet_world) = ''2024-03-15''"
    by code_simp+
  from cost_query_window[OF va(1,2,3)] cost_query_window[OF vb(1,2,3)]
       cost_query_window[OF vc(1,2,3)]
  show ?thesis
    unfolding sa sb sc base va(4) vb(4) vc(4) by simp
qed


text \<open>
  C4 (amended). When the cost query raises, \<open>_get_cost_payload\<close> returns the empty result
  set \<open>{"ResultsByTime": []}\<close> exactly when the exception is a \<open>RuntimeError\<close> whose message
  contains \<open>DataUnavailableException\<close> or \<open>GetCostAndUsage\<close>; any other exception
  propagates unchanged. The second marker is the name of the API operation, which the
  CLI prints in every error the operation returns.
\<close>

theorem cost_query_failure_downgraded:
  assumes "valid_date (today w)" "today w \<noteq> date_min"
    and "files w (cost_cache_path svc granularity (today w)) = None"
    and "run_json (cli svc)
           (cost_query_args (spec_window_start (today w)) (today w) granularity) w
         = (Inl exc, w1)"
  shows "get_cost_payload svc granularity w =
           (if exn_cls exc = RuntimeError
               \<and> (sublist ''DataUnavailableException'' (exn_str exc)
                    \<or> sublist ''GetCostAndUsage'' (exn_str exc))
            then (Inr (JObj [(''ResultsByTime'', JArr [])]), w1)
            else (Inl exc, w1))"
  unfolding get_cost_payload_cases[OF assms(1,2)] assms(3,4)
  by (simp add: empty_report_def)

theorem cost_query_failure_downgraded_witness:
  "fst (get_cost_payload demo_service ''MONTHLY'' unavailable_cost_world)
     = Inr (JObj [(''ResultsByTime'', JArr [])])
   \<and> fst (get_cost_payload demo_service ''MONTHLY'' offline_cost_world)
     = Inl (Exn RuntimeError ''AWS CLI call failed: Could not connect to the endpoint URL'')"
proof -
  let ?q = "\<lambda>w. run_json (cli demo_service)
              (cost_query_args (spec_window_start (today w)) (today w) ''MONTHLY'') w"
  let ?u = "Exn RuntimeError
     ''AWS CLI call failed: An error occurred (DataUnavailableException): Data is not available.''"
  let ?o = "Exn RuntimeError ''AWS CLI call failed: Could not connect to the endpoint URL''"
  have vu: "valid_date (today unavailable_cost_world)" "today unavailable_cost_world \<noteq> date_min"
    "files unavailable_cost_world
       (cost_cache_path demo_service ''MONTHLY'' (today unavailable_cost_world)) = None"
    by (simp_all add: unavailable_cost_world_def quiet_world_def valid_date_def
        days_in_month_def date_min_def)
  have "fst (?q unavailable_cost_world) = Inl ?u"
    by code_simp
  then have qu: "?q unavailable_cost_world = (Inl ?u, snd (?q unavailable_cost_world))"
    by (simp add: prod_eq_iff)
  have mu: "sublist ''DataUnavailableException'' (exn_str ?u)"
    by code_simp
  have vo: "valid_date (today offline_cost_world)" "today offline_cost_world \<noteq> date_min"
    "files offline_cost_world
       (cost_cache_path demo_service ''MONTHLY'' (today offline_cost_world)) = None"
    by (simp_all add: offline_cost_world_def quiet_world_def valid_date_def
        days_in_month_def date_min_def)
  have "fst (?q offline_cost_world) = Inl ?o"
    by code_simp
  then have qo: "?q offline_cost_world = (Inl ?o, snd (?q offline_cost_world))"
    by (simp add: prod_eq_iff)
  have mo: "\<not> sublist ''DataUnavailableException'' (exn_str ?o)"
    "\<not> sublist ''GetCostAndUsage'' (exn_str ?o)"
    by code_simp+
  from cost_query_failure_downgraded[OF vu qu] mu
  have a: "fst (get_cost_payload demo_service ''MONTHLY'' unavailable_cost_world)
     = Inr (JObj [(''ResultsByTime'', JArr [])])"
    by simp
  from cost_query_failure_downgraded[OF vo qo] mo
  have b: "fst (get_cost_payload demo_service ''MONTHLY'' offline_cost_world) = Inl ?o"
    by simp
  from a b show ?thesis by simp
qed

theorem cost_query_access_denied_counterexample:
  "fst (run_json (cli demo_service)
          (cost_query_args \<lparr>year = 2024, month = 3, day = 1\<rparr>
             \<lparr>year = 2024, month = 3, day = 15\<rparr> ''MONTHLY'') denied_cost_world)
     = Inl (Exn RuntimeError (''AWS CLI call failed: An error occurred (AccessDeniedException) ''
              @ ''when calling the GetCostAndUsage operation: not authorized''))
   \<and> \<not> says_data_unavailable
          (''AWS CLI call failed: An error occurred (AccessDeniedException) ''
              @ ''when calling the GetCostAndUsage operation: not authorized'')
   \<and> fst (get_cost_payload demo_service ''MONTHLY'' denied_cost_world)
     = Inr (JObj [(''ResultsByTime'', JArr [])])"
proof -
  have a: "fst (run_json (cli demo_service)
          (cost_query_args \<lparr>year = 2024, month = 3, day = 1\<rparr>
             \<lparr>year = 2024, month = 3, day = 15\<rparr> ''MONTHLY'') denied_cost_world)
     = Inl (Exn RuntimeError (''AWS CLI call failed: An error occurred (AccessDeniedException) ''
              @ ''when calling the GetCostAndUsage operation: not authorized''))"
    by code_simp
  have b: "\<not> says_data_unavailable
          (''AWS CLI call failed: An error occurred (AccessDeniedException) ''
              @ ''when calling the GetCostAndUsage operation: not authorized'')"
    by code_simp
  have c: "fst (get_cost_payload demo_service ''MONTHLY'' denied_cost_world)
     = Inr (JObj [(''ResultsByTime'', JArr [])])"
    by code_simp
  from a b c show ?thesis by blast
qed

lemma digit_inj: "digit a = digit b \<Longrightarrow> a mod 10 = b mod 10"
proof -
  assume h: "digit a = digit b"
  have d: "distinct ''0123456789''" by simp
  have l: "a mod 10 < length ''0123456789''" "b mod 10 < length ''0123456789''" by simp_all
  from h have "''0123456789'' ! (a mod 10) = ''0123456789'' ! (b mod 10)"
    by (simp only: digit_def)
  with nth_eq_iff_index_eq[OF d l] show ?thesis by blast
qed


lemma zero_pad2_eq:
  "zero_pad2 a = zero_pad2 b \<Longrightarrow> (a div 10) mod 10 = (b div 10) mod 10 \<and> a mod 10 = b mod 10"
proof -
  assume "zero_pad2 a = zero_pad2 b"
  then have "digit (a div 10) = digit (b div 10)" "digit a = digit b"
    by (simp_all add: zero_pad2_def)
  then show ?thesis by (blast dest: digit_inj)
qed

lemma zero_pad2_inj:
  assumes "zero_pad2 a = zero_pad2 b" "a < 100" "b < 100"
  shows "a = b"
proof -
  from zero_pad2_eq[OF assms(1)]
  have e: "(a div 10) mod 10 = (b div 10) mod 10" "a mod 10 = b mod 10" by simp_all
  from assms(2,3) have "a div 10 < 10" "b div 10 < 10" by simp_all
  with e(1) have "a div 10 = b div 10" by simp
  with e(2) show ?thesis by (metis div_mult_mod_eq)
qed


lemma zero_pad4_eq:
  "zero_pad4 a = zero_pad4 b \<Longrightarrow>
     (a div 1000) mod 10 = (b div 1000) mod 10 \<and> (a div 100) mod 10 = (b div 100) mod 10
     \<and> (a div 10) mod 10 = (b div 10) mod 10 \<and> a mod 10 = b mod 10"
proof -
  assume "zero_pad4 a = zero_pad4 b"
  then have "digit (a div 1000) = digit (b div 1000)" "digit (a div 100) = digit (b div 100)"
    "digit (a div 10) = digit (b div 10)" "digit a = digit b"
    by (simp_all add: zero_pad4_def)
  then show ?thesis by (blast dest: digit_inj)
qed

lemma div_mod_10_eq: "a div 10 = b div 10 \<Longrightarrow> a mod 10 = b mod 10 \<Longrightarrow> a = (b::nat)"
  by (metis div_mult_mod_eq)

lemma zero_pad4_inj:
  assumes "zero_pad4 a = zero_pad4 b" "a < 10000" "b < 10000"
  shows "a = b"
proof -
  from zero_pad4_eq[OF assms(1)]
  have e: "(a div 1000) mod 10 = (b div 1000) mod 10" "(a div 100) mod 10 = (b div 100) mod 10"
    "(a div 10) mod 10 = (b div 10) mod 10" "a mod 10 = b mod 10" by simp_all
  from assms(2,3) have "a div 1000 < 10" "b div 1000 < 10" by simp_all
  with e(1) have "a div 1000 = b div 1000" by simp
  then have "a div 100 div 10 = b div 100 div 10" by (simp add: div_mult2_eq[symmetric])
  from this e(2) have "a div 100 = b div 100" by (rule div_mod_10_eq)
  then have "a div 10 div 10 = b div 10 div 10" by (simp add: div_mult2_eq[symmetric])
  from this e(3) have "a div 10 = b div 10" by (rule div_mod_10_eq)
  from this e(4) show ?thesis by (rule div_mod_10_eq)
qed

lemma valid_date_bounds:
  "valid_date d \<Longrightarrow> year d < 10000 \<and> month d < 100 \<and> day d < 100"
  by (auto simp: valid_date_def days_in_month_def split: if_splits)

lemma strftime_Ymd_inj:
  assumes "valid_date d1" "valid_date d2" "strftime_Ymd d1 = strftime_Ymd d2"
  shows "d1 = d2"
proof -
  have len: "length (zero_pad4 (year d1)) = length (zero_pad4 (year d2))"
    "length (zero_pad2 (month d1)) = length (zero_pad2 (month d2))"
    by (simp_all add: zero_pad4_def zero_pad2_def)
  from assms(3) len have "zero_pad4 (year d1) = zero_pad4 (year d2)"
    "zero_pad2 (month d1) = zero_pad2 (month d2)" "zero_pad2 (day d1) = zero_pad2 (day d2)"
    by (simp_all add: strftime_Ymd_def)
  with valid_date_bounds[OF assms(1)] valid_date_bounds[OF assms(2)]
  have "year d1 = year d2" "month d1 = month d2" "day d1 = day d2"
    by (blast dest: zero_pad4_inj zero_pad2_inj)+
  then show ?thesis by simp
qed

lemma cost_cache_path_inj:
  assumes "valid_date d1" "valid_date d2" "d1 \<noteq> d2"
  shows "cost_cache_path svc granularity d1 \<noteq> cost_cache_path svc granularity d2"
  using strftime_Ymd_inj[OF assms(1,2)] assms(3)
  by (auto simp: cost_cache_path_def cache_file_def path_join_def)

lemma run_json_cost_world:
  assumes "run_json (cli svc) (cost_query_args (spec_window_start d) d granularity) w = (r, w1)"
  shows "w1 = log_effect (Subprocess (cost_query_command svc granularity d)) w"
  using snd_cost_query[of svc d granularity w] assms by simp

text \<open>
  C6 (amended). For a fetch on a given date and granularity: when the cache file named
  by report type and date exists, its content is returned (as \<open>json.loads\<close> parses it)
  and nothing is run. Otherwise the cost API is queried once. When that query succeeds,
  the reply is written to the cache file (as \<open>json.dumps\<close> serialises it) and returned;
  a second fetch on the same date then returns what \<open>json.loads\<close> reads back from the
  file, without any query: identical content, \<open>json.loads\<close> reading back the reply that
  \<open>json.dumps\<close> wrote, as Python's \<open>json\<close> does; a fetch on another date that has no
  cache file queries again. When the query fails, nothing is written, and the next fetch
  on the same date queries again.
\<close>

theorem cost_report_cache:
  assumes "valid_date (today w)" "today w \<noteq> date_min"
  shows "(\<forall>content. files w (cost_cache_path svc granularity (today w)) = Some content \<longrightarrow>
            get_cost_payload svc granularity w = (json_loads w content, w))
   \<and> (\<forall>payload w1.
         files w (cost_cache_path svc granularity (today w)) = None
         \<and> run_json (cli svc)
              (cost_query_args (spec_window_start (today w)) (today w) granularity) w
             = (Inr payload, w1) \<longrightarrow>
         (\<exists>w2. get_cost_payload svc granularity w = (Inr payload, w2)
            \<and> files w2 (cost_cache_path svc granularity (today w)) = Some (json_dumps w payload)
            \<and> trace w2 = trace w @
                  [Subprocess (cost_query_command svc granularity (today w)),
                   WriteText (cost_cache_path svc granularity (today w)) (json_dumps w payload)]
            \<and> get_cost_payload svc granularity w2
                  = (json_loads w (json_dumps w payload), w2)
            \<and> (json_loads w (json_dumps w payload) = Inr payload \<longrightarrow>
                  get_cost_payload svc granularity w2 = (Inr payload, w2))
            \<and> (\<forall>d. valid_date d \<and> d \<noteq> date_min \<and> d \<noteq> today w
                    \<and> files w (cost_cache_path svc granularity d) = None \<longrightarrow>
                  take (Suc (length (trace w2)))
                    (trace (snd (get_cost_payload svc granularity (w2\<lparr>today := d\<rparr>))))
                  = trace w2 @ [Subprocess (cost_query_command svc granularity d)])))
   \<and> (\<forall>exc w1.
         files w (cost_cache_path svc granularity (today w)) = None
         \<and> run_json (cli svc)
              (cost_query_args (spec_window_start (today w)) (today w) granularity) w
             = (Inl exc, w1) \<longrightarrow>
         snd (get_cost_payload svc granularity w) = w1
         \<and> files w1 = files w
         \<and> trace w1 = trace w @ [Subprocess (cost_query_command svc granularity (today w))]
         \<and> take (Suc (length (trace w1))) (trace (snd (get_cost_payload svc granularity w1)))
             = trace w1 @ [Subprocess (cost_query_command svc granularity (today w))])"
proof (intro conjI allI impI)
  fix content
  assume "files w (cost_cache_path svc granularity (today w)) = Some content"
  then show "get_cost_payload svc granularity w = (json_loads w content, w)"
    unfolding get_cost_payload_cases[OF assms] by simp
next
  fix payload w1
  let ?path = "cost_cache_path svc granularity (today w)"
  let ?text = "json_dumps w payload"
  assume h: "files w ?path = None
         \<and> run_json (cli svc)
              (cost_query_args (spec_window_start (today w)) (today w) granularity) w
             = (Inr payload, w1)"
  then have miss: "files w ?path = None"
    and q: "run_json (cli svc)
              (cost_query_args (spec_window_start (today w)) (today w) granularity) w
             = (Inr payload, w1)" by simp_all
  have w1: "w1 = log_effect (Subprocess (cost_query_command svc granularity (today w))) w"
    by (rule run_json_cost_world[OF q])
  define w2 where "w2 = log_effect (WriteText ?path (json_dumps w1 payload))
                (w1\<lparr>files := (files w1)(?path \<mapsto> json_dumps w1 payload)\<rparr>)"
  have first: "get_cost_payload svc granularity w = (Inr payload, w2)"
    unfolding get_cost_payload_cases[OF assms] miss q w2_def by simp
  have same: "today w2 = today w" "json_loads w2 = json_loads w" "json_dumps w1 = json_dumps w"
    by (simp_all add: w2_def w1 log_effect_def)
  have f2: "files w2 ?path = Some ?text"
    by (simp add: w2_def w1 log_effect_def)
  have t2: "trace w2 = trace w @
                  [Subprocess (cost_query_command svc granularity (today w)),
                   WriteText ?path ?text]"
    by (simp add: w2_def w1 log_effect_def)
  have v2: "valid_date (today w2)" "today w2 \<noteq> date_min"
    using assms same(1) by simp_all
  have second: "get_cost_payload svc granularity w2 = (json_loads w ?text, w2)"
    unfolding get_cost_payload_cases[OF v2] using f2 same by simp
  have other: "\<forall>d. valid_date d \<and> d \<noteq> date_min \<and> d \<noteq> today w
                    \<and> files w (cost_cache_path svc granularity d) = None \<longrightarrow>
                  take (Suc (length (trace w2)))
                    (trace (snd (get_cost_payload svc granularity (w2\<lparr>today := d\<rparr>))))
                  = trace w2 @ [Subprocess (cost_query_command svc granularity d)]"
  proof (intro allI impI)
    fix d
    assume d: "valid_date d \<and> d \<noteq> date_min \<and> d \<noteq> today w
                    \<and> files w (cost_cache_path svc granularity d) = None"
    then have ne: "cost_cache_path svc granularity d \<noteq> ?path"
      using cost_cache_path_inj[of d "today w" svc granularity] assms(1) by blast
    let ?w = "w2\<lparr>today := d\<rparr>"
    have a: "valid_date (today ?w)" "today ?w \<noteq> date_min" using d by simp_all
    have b: "files ?w (cost_cache_path svc granularity (today ?w)) = None"
      using d ne by (simp add: w2_def w1 log_effect_def)
    from cost_query_first_effect[OF a b]
    show "take (Suc (length (trace w2)))
                    (trace (snd (get_cost_payload svc granularity ?w)))
                  = trace w2 @ [Subprocess (cost_query_command svc granularity d)]"
      by simp
  qed
  from second have ident: "json_loads w ?text = Inr payload \<longrightarrow>
                  get_cost_payload svc granularity w2 = (Inr payload, w2)"
    by simp
  from first f2 t2 second ident other
  show "\<exists>w2. get_cost_payload svc granularity w = (Inr payload, w2)
            \<and> files w2 ?path = Some ?text
            \<and> trace w2 = trace w @
                  [Subprocess (cost_query_command svc granularity (today w)),
                   WriteText ?path ?text]
            \<and> get_cost_payload svc granularity w2 = (json_loads w ?text, w2)
            \<and> (json_loads w ?text = Inr payload \<longrightarrow>
                  get_cost_payload svc granularity w2 = (Inr payload, w2))
            \<and> (\<forall>d. valid_date d \<and> d \<noteq> date_min \<and> d \<noteq> today w
                    \<and> files w (cost_cache_path svc granularity d) = None \<longrightarrow>
                  take (Suc (length (trace w2)))
                    (trace (snd (get_cost_payload svc granularity (w2\<lparr>today := d\<rparr>))))
                  = trace w2 @ [Subprocess (cost_query_command svc granularity d)])"
    by blast
next
  fix exc w1
  let ?path = "cost_cache_path svc granularity (today w)"
  assume h: "files w ?path = None
         \<and> run_json (cli svc)
              (cost_query_args (spec_window_start (today w)) (today w) granularity) w
             = (Inl exc, w1)"
  then have miss: "files w ?path = None"
    and q: "run_json (cli svc)
              (cost_query_args (spec_window_start (today w)) (today w) granularity) w
             = (Inl exc, w1)" by simp_all
  have w1: "w1 = log_effect (Subprocess (cost_query_command svc granularity (today w))) w"
    by (rule run_json_cost_world[OF q])
  show "snd (get_cost_payload svc granularity w) = w1"
    unfolding get_cost_payload_cases[OF assms] miss q by simp
  show "files w1 = files w" by (simp add: w1 log_effect_def)
  show "trace w1 = trace w @ [Subprocess (cost_query_command svc granularity (today w))]"
    by (simp add: w1 log_effect_def)
  have a: "valid_date (today w1)" "today w1 \<noteq> date_min"
    using assms by (simp_all add: w1 log_effect_def)
  have b: "files w1 (cost_cache_path svc granularity (today w1)) = None"
    using miss by (simp add: w1 log_effect_def)
  from cost_query_first_effect[OF a b]
  show "take (Suc (length (trace w1))) (trace (snd (get_cost_payload svc granularity w1)))
             = trace w1 @ [Subprocess (cost_query_command svc granularity (today w))]"
    by (simp add: w1 log_effect_def)
qed


theorem cost_report_cache_witness:
  "\<exists>w2. get_cost_payload demo_service ''MONTHLY'' cost_report_world = (Inr cost_value, w2)
      \<and> files w2 ''C:/state/myaws-costs-monthly-20240315.json'' = Some cost_text
      \<and> get_cost_payload demo_service ''MONTHLY'' w2 = (Inr cost_value, w2)
      \<and> length (trace w2) = 2"
proof -
  let ?w = cost_report_world
  let ?q = "run_json (cli demo_service)
              (cost_query_args (spec_window_start (today ?w)) (today ?w) ''MONTHLY'') ?w"
  have v: "valid_date (today ?w)" "today ?w \<noteq> date_min"
    by (simp_all add: cost_report_world_def quiet_world_def valid_date_def
        days_in_month_def date_min_def)
  have miss: "files ?w (cost_cache_path demo_service ''MONTHLY'' (today ?w)) = None"
    by (simp add: cost_report_world_def quiet_world_def)
  have "fst ?q = Inr cost_value" by code_simp
  then have q: "?q = (Inr cost_value, snd ?q)" by (simp add: prod_eq_iff)
  have path: "cost_cache_path demo_service ''MONTHLY'' (today ?w)
                = ''C:/state/myaws-costs-monthly-20240315.json''"
    by code_simp
  have rt: "json_dumps ?w cost_value = cost_text" "json_loads ?w cost_text = Inr cost_value"
    "trace ?w = []"
    by (simp_all add: cost_report_world_def quiet_world_def)
  from cost_report_cache[OF v, of demo_service "''MONTHLY''"] miss q
  obtain w2 where "get_cost_payload demo_service ''MONTHLY'' ?w = (Inr cost_value, w2)"
    "files w2 (cost_cache_path demo_service ''MONTHLY'' (today ?w))
       = Some (json_dumps ?w cost_value)"
    "trace w2 = trace ?w @
       [Subprocess (cost_query_command demo_service ''MONTHLY'' (today ?w)),
        WriteText (cost_cache_path demo_service ''MONTHLY'' (today ?w))
          (json_dumps ?w cost_value)]"
    "json_loads ?w (json_dumps ?w cost_value) = Inr cost_value \<longrightarrow>
       get_cost_payload demo_service ''MONTHLY'' w2 = (Inr cost_value, w2)"
    by blast
  then have "get_cost_payload demo_service ''MONTHLY'' ?w = (Inr cost_value, w2)
      \<and> files w2 ''C:/state/myaws-costs-monthly-20240315.json'' = Some cost_text
      \<and> get_cost_payload demo_service ''MONTHLY'' w2 = (Inr cost_value, w2)
      \<and> length (trace w2) = 2"
    by (simp add: path rt)
  then show ?thesis by blast
qed

lemma failed_fetch_world:
  assumes "valid_date (today w)" "today w \<noteq> date_min"
    and "files w (cost_cache_path svc granularity (today w)) = None"
    and "fst (run_json (cli svc)
           (cost_query_args (spec_window_start (today w)) (today w) granularity) w) = Inl exc"
  shows "snd (get_cost_payload svc granularity w)
           = log_effect (Subprocess (cost_query_command svc granularity (today w))) w"
proof -
  let ?q = "run_json (cli svc)
           (cost_query_args (spec_window_start (today w)) (today w) granularity) w"
  from assms(4) have q: "?q = (Inl exc, snd ?q)" by (simp add: prod_eq_iff)
  have "snd (get_cost_payload svc granularity w) = snd ?q"
    unfolding get_cost_payload_cases[OF assms(1,2)] assms(3)
    by (subst q) simp
  then show ?thesis by (simp add: snd_cost_query)
qed

theorem cost_report_not_cached_counterexample:
  "files unavailable_cost_world
     (cost_cache_path demo_service ''MONTHLY'' (today unavailable_cost_world)) = None
   \<and> fst (get_cost_payload demo_service ''MONTHLY'' unavailable_cost_world)
       = Inr (JObj [(''ResultsByTime'', JArr [])])
   \<and> files (snd (get_cost_payload demo_service ''MONTHLY'' unavailable_cost_world))
       (cost_cache_path demo_service ''MONTHLY'' (today unavailable_cost_world)) = None
   \<and> trace (snd (get_cost_payload demo_service ''MONTHLY''
               (snd (get_cost_payload demo_service ''MONTHLY'' unavailable_cost_world))))
       = [Subprocess (cost_query_command demo_service ''MONTHLY'' (today unavailable_cost_world)),
          Subprocess (cost_query_command demo_service ''MONTHLY'' (today unavailable_cost_world))]"
proof -
  let ?u = unavailable_cost_world
  let ?cmd = "cost_query_command demo_service ''MONTHLY'' (today ?u)"
  let ?w1 = "log_effect (Subprocess ?cmd) ?u"
  let ?exc = "Exn RuntimeError
     ''AWS CLI call failed: An error occurred (DataUnavailableException): Data is not available.''"
  have v: "valid_date (today ?u)" "today ?u \<noteq> date_min" "trace ?u = []"
    by (simp_all add: unavailable_cost_world_def quiet_world_def valid_date_def
        days_in_month_def date_min_def)
  have a: "files ?u (cost_cache_path demo_service ''MONTHLY'' (today ?u)) = None"
    by (simp add: unavailable_cost_world_def quiet_world_def)
  have b: "fst (get_cost_payload demo_service ''MONTHLY'' ?u)
       = Inr (JObj [(''ResultsByTime'', JArr [])])"
    by code_simp
  have q: "fst (run_json (cli demo_service)
           (cost_query_args (spec_window_start (today ?u)) (today ?u) ''MONTHLY'') ?u) = Inl ?exc"
    by code_simp
  have first: "snd (get_cost_payload demo_service ''MONTHLY'' ?u) = ?w1"
    by (rule failed_fetch_world[OF v(1,2) a q])
  have v1: "valid_date (today ?w1)" "today ?w1 \<noteq> date_min" "today ?w1 = today ?u"
    using v by (simp_all add: log_effect_def)
  have a1: "files ?w1 (cost_cache_path demo_service ''MONTHLY'' (today ?w1)) = None"
    using a by (simp add: log_effect_def)
  have "subprocess_run ?w1 = subprocess_run ?u" "json_loads ?w1 = json_loads ?u"
    by (simp_all add: log_effect_def)
  have q1: "fst (run_json (cli demo_service)
           (cost_query_args (spec_window_start (today ?w1)) (today ?w1) ''MONTHLY'') ?w1)
           = Inl ?exc"
    unfolding v1(3) by code_simp
  have second: "snd (get_cost_payload demo_service ''MONTHLY'' ?w1)
                  = log_effect (Subprocess ?cmd) ?w1"
    using failed_fetch_world[OF v1(1,2) a1 q1] by (simp add: v1(3))
  have c: "files (snd (get_cost_payload demo_service ''MONTHLY'' ?u))
       (cost_cache_path demo_service ''MONTHLY'' (today ?u)) = None"
    unfolding first using a by (simp add: log_effect_def)
  have d: "trace (snd (get_cost_payload demo_service ''MONTHLY''
               (snd (get_cost_payload demo_service ''MONTHLY'' ?u)))) = [Subprocess ?cmd, Subprocess ?cmd]"
    unfolding first second by (simp add: log_effect_def v(3))
  from a b c d show ?thesis by blast
qed

subsection \<open>Refresh, run without interruption\<close>

lemma snd_notify:
  "snd (notify title message a) = a\<lparr>outside := log_effect (Notify message title) (outside a)\<rparr>"
  by (simp add: notify_def try_except_def icon_notify_call_def io_return_def split: option.splits)

lemma fst_notify: "fst (notify title message a) = Inr ()"
  by (simp add: notify_def try_except_def icon_notify_call_def io_return_def split: option.splits)

lemma notify_eq:
  "notify title message a =
     (Inr (), a\<lparr>outside := log_effect (Notify message title) (outside a)\<rparr>)"
  by (simp add: prod_eq_iff snd_notify fst_notify)

text \<open>
  C2. A call of \<open>refresh\<close> that finds the lock free: when the snapshot build returns a
  snapshot, that snapshot is held afterwards and the last error is empty; when the build
  raises, the held snapshot is the one held before and the last error is the text of
  the exception; in both cases the lock is free afterwards and the last effect is the
  menu update.
\<close>

theorem refresh_outcome:
  assumes "\<not> refresh_lock a"
  shows "(case get_snapshot (outside a) of
            (Inr snap, w') \<Rightarrow>
              state (snd (refresh get_snapshot force a)) = Some snap
              \<and> last_error (snd (refresh get_snapshot force a)) = []
          | (Inl exc, w') \<Rightarrow>
              state (snd (refresh get_snapshot force a)) = state a
              \<and> last_error (snd (refresh get_snapshot force a)) = exn_str exc)
         \<and> \<not> refresh_lock (snd (refresh get_snapshot force a))
         \<and> trace (outside (snd (refresh get_snapshot force a))) \<noteq> []
         \<and> last (trace (outside (snd (refresh get_snapshot force a)))) = UpdateMenu"
  using assms
  by (cases "get_snapshot (outside a)"; cases "fst (get_snapshot (outside a))"; cases force)
     (simp_all add: refresh_def Let_def try_finally_def try_except_def io_bind_def in_world_def
        assign_state_def assign_last_error_def release_lock_def update_menu_def notify_eq
        io_return_def log_effect_def split: option.splits)


theorem refresh_outcome_witness:
  "state (snd (refresh images_query True (fresh_app quiet_world))) = Some (JObj [])
   \<and> last_error (snd (refresh images_query True (fresh_app quiet_world))) = []
   \<and> state (snd (refresh images_query False
                 ((fresh_app offline_cost_world)\<lparr>state := Some (JObj [])\<rparr>))) = Some (JObj [])
   \<and> last_error (snd (refresh images_query False
                 ((fresh_app offline_cost_world)\<lparr>state := Some (JObj [])\<rparr>)))
       = ''AWS CLI call failed: Could not connect to the endpoint URL''
   \<and> \<not> refresh_lock (snd (refresh images_query True (fresh_app quiet_world)))
   \<and> last (trace (outside (snd (refresh images_query True (fresh_app quiet_world)))))
       = UpdateMenu"
proof -
  let ?a = "fresh_app quiet_world"
  let ?b = "(fresh_app offline_cost_world)\<lparr>state := Some (JObj [])\<rparr>"
  have free: "\<not> refresh_lock ?a" "\<not> refresh_lock ?b"
    by (simp_all add: fresh_app_def)
  have "fst (images_query (outside ?a)) = Inr (JObj [])"
    by code_simp
  then obtain wa where qa: "images_query (outside ?a) = (Inr (JObj []), wa)"
    by (cases "images_query (outside ?a)") simp
  have "fst (images_query (outside ?b))
          = Inl (Exn RuntimeError ''AWS CLI call failed: Could not connect to the endpoint URL'')"
    by code_simp
  then obtain wb where qb: "images_query (outside ?b)
          = (Inl (Exn RuntimeError ''AWS CLI call failed: Could not connect to the endpoint URL''), wb)"
    by (cases "images_query (outside ?b)") simp
  from refresh_outcome[OF free(1), of images_query True]
       refresh_outcome[OF free(2), of images_query False]
  show ?thesis
    unfolding qa qb by simp
qed

lemma refresh_calls_refresh:
  "refresh_calls (snd (refresh get_snapshot force a)) = refresh_calls a @ [force]"
  by (cases "get_snapshot (outside a)"; cases "fst (get_snapshot (outside a))"; cases force)
     (simp_all add: refresh_def Let_def try_finally_def try_except_def io_bind_def in_world_def
        assign_state_def assign_last_error_def release_lock_def update_menu_def notify_eq
        io_return_def split: option.splits)

text \<open>
  C5. The runner of a dispatched action: when the action returns, the last error is
  cleared and the notification "<name> completed" is sent; when it raises, the last
  error is set to the text of the exception and the notification "<name> failed: <text>"
  is sent; in both cases the runner then is one call \<open>refresh(True)\<close> from that state, and
  that is the only entry to \<open>refresh\<close> after the action has concluded.
\<close>

theorem runner_records_notifies_refreshes:
  "(case action a of
      (Inr x, a1) \<Rightarrow>
        runner get_snapshot action action_name a =
          refresh get_snapshot True
            (a1\<lparr>last_error := [],
                outside := log_effect (Notify (action_name @ '' completed'') ''MyAWS'')
                             (outside a1)\<rparr>)
    | (Inl exc, a1) \<Rightarrow>
        runner get_snapshot action action_name a =
          refresh get_snapshot True
            (a1\<lparr>last_error := exn_str exc,
                outside := log_effect
                             (Notify (action_name @ '' failed: '' @ exn_str exc) ''MyAWS'')
                             (outside a1)\<rparr>))
   \<and> refresh_calls (snd (runner get_snapshot action action_name a))
       = refresh_calls (snd (action a)) @ [True]"
proof -
  obtain r a1 where act: "action a = (r, a1)" by (cases "action a")
  show ?thesis
  proof (cases r)
    case (Inr x)
    let ?a2 = "a1\<lparr>last_error := [],
                outside := log_effect (Notify (action_name @ '' completed'') ''MyAWS'')
                             (outside a1)\<rparr>"
    have eq: "runner get_snapshot action action_name a = refresh get_snapshot True ?a2"
      using act Inr
      by (cases "refresh get_snapshot True ?a2"; cases "fst (refresh get_snapshot True ?a2)")
         (simp_all add: runner_def try_finally_def try_except_def io_bind_def
            assign_last_error_def notify_eq)
    have "refresh_calls (snd (refresh get_snapshot True ?a2)) = refresh_calls a1 @ [True]"
      by (simp add: refresh_calls_refresh)
    with eq act Inr show ?thesis by simp
  next
    case (Inl exc)
    let ?a2 = "a1\<lparr>last_error := exn_str exc,
                outside := log_effect
                             (Notify (action_name @ '' failed: '' @ exn_str exc) ''MyAWS'')
                             (outside a1)\<rparr>"
    have eq: "runner get_snapshot action action_name a = refresh get_snapshot True ?a2"
      using act Inl
      by (cases "refresh get_snapshot True ?a2"; cases "fst (refresh get_snapshot True ?a2)")
         (simp_all add: runner_def try_finally_def try_except_def io_bind_def
            assign_last_error_def notify_eq)
    have "refresh_calls (snd (refresh get_snapshot True ?a2)) = refresh_calls a1 @ [True]"
      by (simp add: refresh_calls_refresh)
    with eq act Inl show ?thesis by simp
  qed
qed

subsection \<open>Interleaved refresh calls\<close>

lemma length_filter_update:
  "i < length xs \<Longrightarrow>
     length (filter P (xs[i := y])) + (if P (xs ! i) then 1 else 0)
       = length (filter P xs) + (if P y then 1 else 0)"
proof (induction xs arbitrary: i)
  case Nil
  then show ?case by simp
next
  case (Cons x xs)
  show ?case
  proof (cases i)
    case 0
    then show ?thesis by simp
  next
    case (Suc j)
    with Cons.prems have "j < length xs" by simp
    from Cons.IH[OF this] Suc show ?thesis by simp
  qed
qed

lemma in_world_lock: "refresh_lock (snd (in_world m a)) = refresh_lock a"
  by (cases "m (outside a)") (simp add: in_world_def)

lemma update_menu_lock: "refresh_lock (snd (update_menu a)) = refresh_lock a"
  by (simp add: update_menu_def)

lemma notify_lock: "refresh_lock (snd (notify title message a)) = refresh_lock a"
  by (simp add: notify_def try_except_def icon_notify_call_def io_return_def
      split: option.splits)

lemma thread_step_lock:
  assumes "thread_step get_snapshot th a = (th', a')"
  shows "(holds_lock th' = holds_lock th \<and> refresh_lock a' = refresh_lock a)
       \<or> (\<not> holds_lock th \<and> holds_lock th' \<and> \<not> refresh_lock a \<and> refresh_lock a')
       \<or> (holds_lock th \<and> \<not> holds_lock th' \<and> \<not> refresh_lock a')"
proof -
  obtain p calls where th: "th = (p, calls)" by (cases th)
  show ?thesis
  proof (cases p)
    case Idle
    with assms th show ?thesis by (cases calls) auto
  next
    case (Acquire force)
    with assms th show ?thesis by (auto split: if_splits)
  next
    case (Building force)
    with assms th in_world_lock[of get_snapshot a] show ?thesis
      by (cases "in_world get_snapshot a") (auto split: sum.splits)
  next
    case (Store snap force)
    with assms th show ?thesis by (auto simp: assign_state_def)
  next
    case (ClearError force)
    with assms th show ?thesis by (auto simp: assign_last_error_def)
  next
    case NotifyRefreshed
    with assms th notify_lock[of "''MyAWS''" "''Data refreshed''" a] show ?thesis by auto
  next
    case (Handler exc)
    with assms th show ?thesis by (auto simp: assign_last_error_def)
  next
    case Release
    with assms th show ?thesis by (auto simp: release_lock_def)
  next
    case Menu
    with assms th update_menu_lock[of a] show ?thesis
      by (cases "update_menu a") (auto split: sum.splits)
  qed
qed

lemma sys_step_inv:
  assumes "lock_inv sys"
  shows "lock_inv (sys_step get_snapshot i sys)"
proof -
  obtain threads a where sys: "sys = (threads, a)" by (cases sys)
  show ?thesis
  proof (cases "i < length threads")
    case False
    with assms sys show ?thesis by (simp add: sys_step_def)
  next
    case True
    obtain th' a' where st: "thread_step get_snapshot (threads ! i) a = (th', a')"
      by (cases "thread_step get_snapshot (threads ! i) a")
    from length_filter_update[OF True, of holds_lock th']
    have cnt: "length (filter holds_lock (threads[i := th'])) + (if holds_lock (threads ! i) then 1 else 0)
       = length (filter holds_lock threads) + (if holds_lock th' then 1 else 0)" .
    from assms sys have inv: "length (filter holds_lock threads) = (if refresh_lock a then 1 else 0)"
      by (simp add: lock_inv_def)
    have pos: "holds_lock (threads ! i) \<Longrightarrow> 0 < length (filter holds_lock threads)"
      using True by (auto simp: filter_empty_conv)
    from thread_step_lock[OF st] cnt inv pos
    have "length (filter holds_lock (threads[i := th'])) = (if refresh_lock a' then 1 else 0)"
      by (auto split: if_splits)
    with sys True st show ?thesis by (simp add: sys_step_def lock_inv_def)
  qed
qed

lemma run_schedule_inv:
  "lock_inv sys \<Longrightarrow> lock_inv (run_schedule get_snapshot schedule sys)"
  unfolding run_schedule_def
  by (induction schedule arbitrary: sys) (simp_all add: sys_step_inv)

lemma building_holds_lock: "building th \<Longrightarrow> holds_lock th"
  by (cases th rule: building.cases) simp_all

lemma length_filter_building:
  "length (filter building threads) \<le> length (filter holds_lock threads)"
proof (induction threads)
  case Nil
  then show ?case by simp
next
  case (Cons th threads)
  then show ?case using building_holds_lock[of th] by auto
qed


text \<open>
  One thread alone, making one call: its steps are \<open>refresh\<close> run without interruption.
\<close>

lemma single_thread_refresh:
  "run_schedule get_snapshot (replicate 8 0) ([(Idle, [force])], a)
     = ([(Idle, [])], snd (refresh get_snapshot force a))"
  by (cases "get_snapshot (outside a)"; cases "fst (get_snapshot (outside a))"; cases force;
      cases "refresh_lock a";
      cases "icon_update_menu (outside a) (trace (outside a))")
     (simp_all add: run_schedule_def sys_step_def eval_nat_numeral refresh_def Let_def
        try_finally_def try_except_def io_bind_def in_world_def assign_state_def
        assign_last_error_def release_lock_def update_menu_def notify_def icon_notify_call_def
        io_return_def log_effect_def split: option.splits)

text \<open>
  C3. Threads that call \<open>refresh\<close> start with the lock free. Whatever the schedule, at
  most one of them is inside \<open>get_snapshot\<close> afterwards (indeed at most one is between
  acquiring and releasing the lock); and a thread that tries the lock while it is held
  goes back to idle by its next step, with its remaining calls as they were (no exception,
  nothing queued) and the application, snapshot and last error included, unchanged.
\<close>

theorem refresh_calls_exclusive:
  assumes "\<forall>th\<in>set threads. \<not> holds_lock th" and "\<not> refresh_lock a"
  shows "(case run_schedule get_snapshot schedule (threads, a) of
            (threads', a') \<Rightarrow>
              length (filter building threads') \<le> 1
              \<and> length (filter holds_lock threads') \<le> 1
              \<and> (\<forall>i force calls.
                    i < length threads' \<and> threads' ! i = (Acquire force, calls)
                    \<and> refresh_lock a' \<longrightarrow>
                    sys_step get_snapshot i (threads', a')
                      = (threads'[i := (Idle, calls)], a')))"
proof -
  from assms have "filter holds_lock threads = []"
    by (simp add: filter_empty_conv)
  with assms(2) have "lock_inv (threads, a)"
    by (simp add: lock_inv_def)
  then have inv: "lock_inv (run_schedule get_snapshot schedule (threads, a))"
    by (rule run_schedule_inv)
  obtain threads' a' where r: "run_schedule get_snapshot schedule (threads, a) = (threads', a')"
    by (cases "run_schedule get_snapshot schedule (threads, a)")
  from inv r have h: "length (filter holds_lock threads') \<le> 1"
    by (simp add: lock_inv_def split: if_splits)
  with length_filter_building[of threads'] have b: "length (filter building threads') \<le> 1"
    by simp
  have "\<forall>i force calls.
          i < length threads' \<and> threads' ! i = (Acquire force, calls) \<and> refresh_lock a' \<longrightarrow>
            sys_step get_snapshot i (threads', a') = (threads'[i := (Idle, calls)], a')"
    by (simp add: sys_step_def)
  with h b r show ?thesis by simp
qed

theorem refresh_calls_exclusive_witness:
  "run_schedule images_query [0, 0, 1] ([(Idle, [True]), (Idle, [False])], fresh_app quiet_world)
     = ([(Building True, []), (Acquire False, [])],
        (fresh_app quiet_world)\<lparr>refresh_lock := True, refresh_calls := [True, False]\<rparr>)
   \<and> sys_step images_query 1
        ([(Building True, []), (Acquire False, [])],
         (fresh_app quiet_world)\<lparr>refresh_lock := True, refresh_calls := [True, False]\<rparr>)
     = ([(Building True, []), (Idle, [])],
        (fresh_app quiet_world)\<lparr>refresh_lock := True, refresh_calls := [True, False]\<rparr>)"
proof -
  let ?threads = "[(Idle, [True]), (Idle, [False])] :: json thread list"
  let ?a' = "(fresh_app quiet_world)\<lparr>refresh_lock := True, refresh_calls := [True, False]\<rparr>"
  have start: "\<forall>th\<in>set ?threads. \<not> holds_lock th" "\<not> refresh_lock (fresh_app quiet_world)"
    by (simp_all add: fresh_app_def)
  have r: "run_schedule images_query [0, 0, 1] (?threads, fresh_app quiet_world)
     = ([(Building True, []), (Acquire False, [])], ?a')"
    by (simp add: run_schedule_def sys_step_def fresh_app_def)
  have held: "refresh_lock ?a'" by simp
  let ?threads' = "[(Building True, []), (Acquire False, [])] :: json thread list"
  from refresh_calls_exclusive[OF start, of images_query "[0, 0, 1]"]
  have "\<forall>i force calls.
          i < length ?threads' \<and> ?threads' ! i = (Acquire force, calls) \<and> refresh_lock ?a' \<longrightarrow>
          sys_step images_query i (?threads', ?a') = (?threads'[i := (Idle, calls)], ?a')"
    unfolding r by (simp only: prod.case) blast
  then have "1 < length ?threads' \<and> ?threads' ! 1 = (Acquire False, []) \<and> refresh_lock ?a' \<longrightarrow>
          sys_step images_query 1 (?threads', ?a') = (?threads'[1 := (Idle, [])], ?a')"
    by blast
  with held have "sys_step images_query 1 (?threads', ?a')
     = ([(Building True, []), (Idle, [])], ?a')"
    by simp
  with r show ?thesis by simp
qed

subsection \<open>Loading a configuration with an unknown key\<close>

lemma keys_deep_update:
  "fst ` set (deep_update held override) = fst ` set held \<union> fst ` set override"
proof (induction held override rule: deep_update.induct)
  case (1 out)
  then show ?case by simp
next
  case (2 out key v rest)
  have "fst ` set (case v of
          JObj inner \<Rightarrow>
            (case map_of out key of
               Some (JObj held) \<Rightarrow> AList.update key (JObj (deep_update held inner)) out
             | _ \<Rightarrow> AList.update key v out)
        | _ \<Rightarrow> AList.update key v out) = insert key (fst ` set out)"
    by (auto simp: dom_update split: json.splits option.splits)
  with 2 show ?case by auto
qed

lemma AppConfig_new_unknown_key:
  assumes "k \<in> fst ` set kwargs" "k \<notin> set config_fields"
  shows "\<exists>k'. k' \<in> fst ` set kwargs \<and> k' \<notin> set config_fields
           \<and> AppConfig_new kwargs =
               Inl (Exn TypeError (''AppConfig.__init__() got an unexpected keyword argument ''
                      @ [CHR 0x27] @ k' @ [CHR 0x27]))"
proof -
  let ?bad = "filter (\<lambda>k. k \<notin> set config_fields) (map fst kwargs)"
  from assms have "k \<in> set ?bad" by auto
  then obtain k' ks where bad: "?bad = k' # ks" by (cases ?bad) auto
  then have "k' \<in> set ?bad" by simp
  then have "k' \<in> fst ` set kwargs \<and> k' \<notin> set config_fields" by auto
  moreover have "AppConfig_new kwargs =
               Inl (Exn TypeError (''AppConfig.__init__() got an unexpected keyword argument ''
                      @ [CHR 0x27] @ k' @ [CHR 0x27]))"
    unfolding AppConfig_new_def bad by simp
  ultimately show ?thesis by blast
qed

lemma resolve_state_dir_files:
  "resolve_state_dir c w = (Inr dir, w') \<Longrightarrow> files w' = files w \<and> json_loads w' = json_loads w"
  by (auto simp: resolve_state_dir_def mkdir_def Let_def log_effect_def
           split: if_splits option.splits sum.splits)

text \<open>
  C10. When the state directory can be resolved and the configuration file exists and
  parses to a document with a top-level key that is not a field of \<open>AppConfig\<close>,
  \<open>load_config\<close> raises the \<open>TypeError\<close> of the constructor, naming an unexpected key of
  the document; it returns no configuration.
\<close>

theorem load_config_unknown_key:
  assumes dir: "resolve_state_dir AppConfig_defaults w = (Inr dir, w')"
    and present: "files w (config_source config_path (path_join dir ''config.json''))
                    = Some content"
    and parsed: "json_loads w content = Inr (JObj document)"
    and unknown: "k \<in> fst ` set document" "k \<notin> set config_fields"
  shows "\<exists>k'. k' \<in> fst ` set document \<and> k' \<notin> set config_fields
           \<and> load_config config_path w =
               (Inl (Exn TypeError (''AppConfig.__init__() got an unexpected keyword argument ''
                       @ [CHR 0x27] @ k' @ [CHR 0x27])), w')"
proof -
  let ?merged = "deep_update (asdict AppConfig_defaults) document"
  from unknown(1) have "k \<in> fst ` set ?merged"
    by (simp add: keys_deep_update)
  from AppConfig_new_unknown_key[OF this unknown(2)]
  obtain k' where k': "k' \<in> fst ` set ?merged" "k' \<notin> set config_fields"
    and new: "AppConfig_new ?merged =
               Inl (Exn TypeError (''AppConfig.__init__() got an unexpected keyword argument ''
                      @ [CHR 0x27] @ k' @ [CHR 0x27]))"
    by blast
  have "fst ` set (asdict AppConfig_defaults) = set config_fields"
    by (simp add: asdict_def config_fields_def)
  with k' have in_doc: "k' \<in> fst ` set document"
    by (auto simp: keys_deep_update)
  from resolve_state_dir_files[OF dir] present parsed
  have f: "files w' (config_source config_path (path_join dir ''config.json'')) = Some content"
    "json_loads w' content = Inr (JObj document)"
    by simp_all
  have "load_config config_path w =
               (Inl (Exn TypeError (''AppConfig.__init__() got an unexpected keyword argument ''
                       @ [CHR 0x27] @ k' @ [CHR 0x27])), w')"
    unfolding load_config_def
    using dir f new
    by (simp add: io_bind_def Let_def io_result_def)
  with in_doc k'(2) show ?thesis by blast
qed


theorem load_config_unknown_key_witness:
  \<open>fst (load_config None unknown_key_world) =
     Inl (Exn TypeError
            (''AppConfig.__init__() got an unexpected keyword argument '' @ [CHR 0x27]
               @ ''colour'' @ [CHR 0x27]))\<close>
proof -
  let ?w = unknown_key_world
  let ?w' = "log_effect (Mkdir ''C:/AppData/MyAWS'') ?w"
  let ?doc = "[(''aws_region'', JStr ''us-east-1''), (''colour'', JStr ''blue'')]"
  have dir: "resolve_state_dir AppConfig_defaults ?w = (Inr ''C:/AppData/MyAWS'', ?w')"
    by (simp add: resolve_state_dir_def mkdir_def AppConfig_defaults_def unknown_key_world_def
        quiet_world_def path_join_def Let_def)
  have present: \<open>files ?w (config_source None (path_join ''C:/AppData/MyAWS'' ''config.json''))
                    = Some ''{"aws_region": "us-east-1", "colour": "blue"}''\<close>
    by (simp add: config_source_def path_join_def unknown_key_world_def quiet_world_def)
  have parsed: \<open>json_loads ?w ''{"aws_region": "us-east-1", "colour": "blue"}'' = Inr (JObj ?doc)\<close>
    by (simp add: unknown_key_world_def quiet_world_def config_replies_def)
  have unknown: "''colour'' \<in> fst ` set ?doc" "''colour'' \<notin> set config_fields"
    by (simp_all add: config_fields_def)
  from load_config_unknown_key[OF dir present parsed unknown]
  obtain k' where k': "k' \<in> fst ` set ?doc" "k' \<notin> set config_fields"
    and r: "load_config None ?w =
               (Inl (Exn TypeError (''AppConfig.__init__() got an unexpected keyword argument ''
                       @ [CHR 0x27] @ k' @ [CHR 0x27])), ?w')"
    by blast
  from k' have "k' = ''colour''"
    by (auto simp: config_fields_def)
  with r show ?thesis by simp
qed

text \<open>A document of known keys loads, the override in place.\<close>

lemma load_config_known_keys_example:
  "map_option (\<lambda>c. map_of c ''aws_region'')
     (case fst (load_config None known_keys_world) of Inl e \<Rightarrow> None | Inr c \<Rightarrow> Some c)
     = Some (Some (JStr ''us-east-1''))"
  by code_simp

end
